theory Spec2Isabelle
  imports Complex_Main
begin

section \<open>Python values: errors, floats, grids\<close>

text \<open>
  Every exception a modelled function can raise is a value of \<open>py_error\<close>; a
  function that can raise returns \<open>py_error + 'a\<close> (\<open>Inl\<close> the exception).
\<close>

datatype py_error = IndexError | KeyError | ValueError | ZeroDivisionError

definition bind_r :: "py_error + 'a \<Rightarrow> ('a \<Rightarrow> py_error + 'b) \<Rightarrow> py_error + 'b" where
  "bind_r m f = (case m of Inl e \<Rightarrow> Inl e | Inr v \<Rightarrow> f v)"

fun mapM_r :: "('a \<Rightarrow> py_error + 'b) \<Rightarrow> 'a list \<Rightarrow> py_error + 'b list" where
  "mapM_r f [] = Inr []"
| "mapM_r f (x # xs) =
     (case f x of Inl e \<Rightarrow> Inl e
      | Inr v \<Rightarrow> (case mapM_r f xs of Inl e \<Rightarrow> Inl e | Inr vs \<Rightarrow> Inr (v # vs)))"

fun foldM_r :: "('s \<Rightarrow> 'a \<Rightarrow> py_error + 's) \<Rightarrow> 's \<Rightarrow> 'a list \<Rightarrow> py_error + 's" where
  "foldM_r f s [] = Inr s"
| "foldM_r f s (x # xs) = (case f s x of Inl e \<Rightarrow> Inl e | Inr s' \<Rightarrow> foldM_r f s' xs)"

text \<open>
  A float is a real number or one of the IEEE special values. Arithmetic on finite
  values is idealised as exact; the special values appear only where the code divides.
  Every comparison with \<open>NaN\<close> is false, as in Python. The thresholds that
  \<open>_get_biome\<close> compares against are the binary64 numbers Python reads its literals
  as, not the decimals.
\<close>

datatype pyfloat = Fin real | PInf | NInf | NaN

fun flt :: "pyfloat \<Rightarrow> pyfloat \<Rightarrow> bool" where
  "flt (Fin a) (Fin b) = (a < b)"
| "flt NaN _ = False"
| "flt _ NaN = False"
| "flt NInf NInf = False"
| "flt NInf _ = True"
| "flt _ NInf = False"
| "flt PInf _ = False"
| "flt _ PInf = True"

definition fgt :: "pyfloat \<Rightarrow> pyfloat \<Rightarrow> bool" where
  "fgt a b = flt b a"

text \<open>numpy's element-wise true division of finite values: \<open>x / 0\<close> is an infinity or
  \<open>NaN\<close> (with a warning), never an exception.\<close>

definition np_div :: "real \<Rightarrow> real \<Rightarrow> pyfloat" where
  "np_div a b =
     (if b = 0 then (if a = 0 then NaN else if 0 < a then PInf else NInf)
      else Fin (a / b))"

text \<open>\<open>range(n)\<close>: empty for \<open>n \<le> 0\<close>.\<close>

definition py_range :: "int \<Rightarrow> int list" where
  "py_range n = map int [0..<nat n]"

text \<open>\<open>m[y][x]\<close> for non-negative indices; out of range raises \<open>IndexError\<close>.\<close>

definition grid_get :: "'a list list \<Rightarrow> int \<Rightarrow> int \<Rightarrow> py_error + 'a" where
  "grid_get m x y =
     (if 0 \<le> y \<and> nat y < length m \<and> 0 \<le> x \<and> nat x < length (m ! nat y)
      then Inr (m ! nat y ! nat x) else Inl IndexError)"

text \<open>The cells of a \<open>width \<times> height\<close> grid in the order of
  \<open>for y in range(height): for x in range(width)\<close>, as pairs \<open>(x, y)\<close>.\<close>

definition grid_cells :: "int \<Rightarrow> int \<Rightarrow> (int \<times> int) list" where
  "grid_cells width height =
     concat (map (\<lambda>y. map (\<lambda>x. (x, y)) (py_range width)) (py_range height))"

section \<open>biome\_types.py and tile\_types.py\<close>

definition OCEAN :: string where "OCEAN = ''ocean''"
definition DESERT :: string where "DESERT = ''desert''"
definition SWAMP :: string where "SWAMP = ''swamp''"
definition GRASSLAND :: string where "GRASSLAND = ''grassland''"
definition FOREST :: string where "FOREST = ''forest''"
definition STEPPE :: string where "STEPPE = ''steppe''"
definition MOUNTAIN :: string where "MOUNTAIN = ''mountain''"
definition SNOW :: string where "SNOW = ''snow''"

lemmas biome_defs =
  OCEAN_def DESERT_def SWAMP_def GRASSLAND_def FOREST_def STEPPE_def MOUNTAIN_def SNOW_def

definition biome_labels :: "string list" where
  "biome_labels = [OCEAN, DESERT, SWAMP, GRASSLAND, FOREST, STEPPE, MOUNTAIN, SNOW]"

type_synonym rgb = "nat \<times> nat \<times> nat"

text \<open>\<open>BiomeType.get_color\<close>: the dict literal as an association list (a later
  entry for an equal key would replace an earlier one; the eight keys are distinct), and
  \<open>color_map[biome_type]\<close>, which raises \<open>KeyError\<close> on a missing key.\<close>

definition color_map :: "(string \<times> rgb) list" where
  "color_map =
     [(OCEAN, (0, 0, 139)), (DESERT, (238, 214, 175)), (SWAMP, (0, 100, 0)),
      (GRASSLAND, (34, 139, 34)), (FOREST, (0, 100, 0)), (STEPPE, (152, 251, 152)),
      (MOUNTAIN, (139, 137, 137)), (SNOW, (255, 250, 250))]"

definition get_color :: "string \<Rightarrow> py_error + rgb" where
  "get_color biome_type =
     (case map_of color_map biome_type of None \<Rightarrow> Inl KeyError | Some c \<Rightarrow> Inr c)"

text \<open>The values of the \<open>TileType\<close> enum.\<close>

definition DEEP_WATER :: string where "DEEP_WATER = ''deep_water''"
definition SHALLOW_WATER :: string where "SHALLOW_WATER = ''shallow_water''"
definition SAND :: string where "SAND = ''sand''"
definition GRASS :: string where "GRASS = ''grass''"
definition TILE_FOREST :: string where "TILE_FOREST = ''forest''"
definition TILE_MOUNTAIN :: string where "TILE_MOUNTAIN = ''mountain''"

lemmas tile_defs =
  DEEP_WATER_def SHALLOW_WATER_def SAND_def GRASS_def TILE_FOREST_def TILE_MOUNTAIN_def

section \<open>terrain\_mapper.py and terrain\_renderer.py\<close>

definition biome_to_terrain :: "(string \<times> string) list" where
  "biome_to_terrain =
     [(OCEAN, DEEP_WATER), (SWAMP, SHALLOW_WATER), (DESERT, SAND), (FOREST, TILE_FOREST),
      (GRASSLAND, GRASS), (STEPPE, GRASS), (MOUNTAIN, TILE_MOUNTAIN), (SNOW, TILE_MOUNTAIN)]"

text \<open>\<open>self.biome_to_terrain.get(biome, TileType.GRASS.value)\<close>\<close>

definition get_terrain_for_biome :: "string \<Rightarrow> string" where
  "get_terrain_for_biome biome =
     (case map_of biome_to_terrain biome of None \<Rightarrow> GRASS | Some t \<Rightarrow> t)"

text \<open>\<open>translate_biomes\<close>: \<open>len(biome_map[0])\<close> raises on an empty grid, and
  \<open>biome_map[y][x]\<close> on a row shorter than the first.\<close>

definition translate_biomes :: "string list list \<Rightarrow> py_error + string list list" where
  "translate_biomes biome_map =
     (case biome_map of
        [] \<Rightarrow> Inl IndexError
      | row0 # _ \<Rightarrow>
          mapM_r (\<lambda>y. mapM_r (\<lambda>x.
                bind_r (grid_get biome_map x y) (\<lambda>biome. Inr (get_terrain_for_biome biome)))
              (py_range (int (length row0))))
            (py_range (int (length biome_map))))"

definition terrain_colors :: "(string \<times> rgb) list" where
  "terrain_colors =
     [(''deep_water'', (0, 0, 128)), (''shallow_water'', (0, 128, 192)),
      (''sand'', (237, 201, 175)), (''grass'', (34, 139, 34)), (''forest'', (0, 100, 0)),
      (''dirt'', (139, 69, 19)), (''mountain'', (169, 169, 169)),
      (''snow'', (255, 250, 250))]"

text \<open>The renderer's lookup \<open>self.terrain_colors.get(terrain_map[y][x], (255, 0, 255))\<close>.\<close>

definition terrain_color :: "string \<Rightarrow> rgb" where
  "terrain_color t = (case map_of terrain_colors t of None \<Rightarrow> (255, 0, 255) | Some c \<Rightarrow> c)"

section \<open>biome\_generator.py\<close>

text \<open>The binary64 values of the literals \<open>0.2\<close>, \<open>0.8\<close>, \<open>0.7\<close> and \<open>0.4\<close>
  (\<open>0.5\<close> is exact). Those of \<open>0.2\<close>, \<open>0.8\<close> and \<open>0.4\<close> lie above the decimal,
  that of \<open>0.7\<close> below it.\<close>

definition f64_0_2 :: real where "f64_0_2 = 3602879701896397 / 18014398509481984"
definition f64_0_8 :: real where "f64_0_8 = 3602879701896397 / 4503599627370496"
definition f64_0_7 :: real where "f64_0_7 = 3152519739159347 / 4503599627370496"
definition f64_0_4 :: real where "f64_0_4 = 3602879701896397 / 9007199254740992"

lemmas f64_defs = f64_0_2_def f64_0_8_def f64_0_7_def f64_0_4_def

text \<open>\<open>_get_biome\<close>: every comparison is against the binary64 value of its literal.\<close>

definition get_biome :: "pyfloat \<Rightarrow> pyfloat \<Rightarrow> string" where
  "get_biome elevation moisture =
     (if flt elevation (Fin f64_0_2) then OCEAN
      else if fgt elevation (Fin f64_0_8) then
        (if fgt moisture (Fin (1 / 2)) then SNOW else MOUNTAIN)
      else if fgt elevation (Fin (1 / 2)) then
        (if fgt moisture (Fin f64_0_7) then FOREST
         else if fgt moisture (Fin f64_0_4) then GRASSLAND
         else STEPPE)
      else if fgt moisture (Fin f64_0_7) then SWAMP
      else if fgt moisture (Fin f64_0_4) then GRASSLAND
      else DESERT)"

text \<open>The pixel loop of \<open>render_to_image\<close>:
  \<open>pixels[x, y] = BiomeType.get_color(biome_map[y][x])\<close> for every cell of the
  generator's \<open>width \<times> height\<close>; the result lists the pixels written, by row.\<close>

definition render_pixels :: "int \<Rightarrow> int \<Rightarrow> string list list \<Rightarrow> py_error + rgb list list" where
  "render_pixels width height biome_map =
     mapM_r (\<lambda>y. mapM_r (\<lambda>x. bind_r (grid_get biome_map x y) get_color) (py_range width))
       (py_range height)"

section \<open>biome\_rules.py\<close>

text \<open>The eight offsets \<open>(dx, dy)\<close> in the order of
  \<open>for dy in [-1, 0, 1]: for dx in [-1, 0, 1]\<close>, the centre skipped.\<close>

definition neighbor_offsets :: "(int \<times> int) list" where
  "neighbor_offsets =
     [(-1, -1), (0, -1), (1, -1), (-1, 0), (1, 0), (-1, 1), (0, 1), (1, 1)]"

text \<open>\<open>_get_neighbors\<close>: the width is the length of the first row; an out-of-bounds
  neighbour is the empty string.\<close>

definition get_neighbors :: "string list list \<Rightarrow> int \<Rightarrow> int \<Rightarrow> py_error + string list" where
  "get_neighbors terrain_map x y =
     (case terrain_map of
        [] \<Rightarrow> Inl IndexError
      | row0 # _ \<Rightarrow>
          mapM_r (\<lambda>(dx, dy).
              let nx = x + dx; ny = y + dy in
              if 0 \<le> nx \<and> nx < int (length row0) \<and> 0 \<le> ny \<and> ny < int (length terrain_map)
              then grid_get terrain_map nx ny else Inr [])
            neighbor_offsets)"

text \<open>The four rules. Each returns the cell's new type; \<open>apply_rules\<close> calls them
  with \<open>x\<close>, \<open>y\<close> from \<open>range\<close>, so the indices are never negative.\<close>

definition rule_mountain_water :: "string list list \<Rightarrow> int \<Rightarrow> int \<Rightarrow> py_error + string" where
  "rule_mountain_water terrain_map x y =
     bind_r (grid_get terrain_map x y) (\<lambda>cur.
       if cur \<noteq> TILE_MOUNTAIN then Inr cur
       else bind_r (get_neighbors terrain_map x y) (\<lambda>neighbors.
         if DEEP_WATER \<in> set neighbors then Inr TILE_FOREST else Inr cur))"

definition rule_isolated_grass :: "string list list \<Rightarrow> int \<Rightarrow> int \<Rightarrow> py_error + string" where
  "rule_isolated_grass terrain_map x y =
     bind_r (grid_get terrain_map x y) (\<lambda>cur.
       if cur \<noteq> GRASS then Inr cur
       else bind_r (get_neighbors terrain_map x y) (\<lambda>neighbors.
         if 5 \<le> count_list neighbors SAND then Inr SAND else Inr cur))"

definition rule_isolated_water :: "string list list \<Rightarrow> int \<Rightarrow> int \<Rightarrow> py_error + string" where
  "rule_isolated_water terrain_map x y =
     bind_r (grid_get terrain_map x y) (\<lambda>cur.
       if cur \<noteq> SHALLOW_WATER then Inr cur
       else bind_r (get_neighbors terrain_map x y) (\<lambda>neighbors.
         if 6 \<le> count_list neighbors GRASS + count_list neighbors SAND
         then Inr SAND else Inr cur))"

definition rule_isolated_forest :: "string list list \<Rightarrow> int \<Rightarrow> int \<Rightarrow> py_error + string" where
  "rule_isolated_forest terrain_map x y =
     bind_r (grid_get terrain_map x y) (\<lambda>cur.
       if cur \<noteq> TILE_FOREST then Inr cur
       else bind_r (get_neighbors terrain_map x y) (\<lambda>neighbors.
         if \<not> list_ex (\<lambda>n. n = GRASS \<or> n = TILE_FOREST) neighbors
         then Inr GRASS else Inr cur))"

definition rules :: "(string list list \<Rightarrow> int \<Rightarrow> int \<Rightarrow> py_error + string) list" where
  "rules = [rule_mountain_water, rule_isolated_grass, rule_isolated_water, rule_isolated_forest]"

text \<open>\<open>m[y][x] = v\<close> on a cell that exists.\<close>

definition grid_set :: "'a list list \<Rightarrow> int \<Rightarrow> int \<Rightarrow> 'a \<Rightarrow> 'a list list" where
  "grid_set m x y v = m[nat y := (m ! nat y)[nat x := v]]"

text \<open>The inner loop \<open>for rule in self.rules\<close> of \<open>apply_rules\<close>: every rule is
  called on \<open>new_map\<close>, the grid being written, and the first one that returns a type
  other than \<open>current_type\<close> stores it and ends the loop.\<close>

fun apply_rules_cell ::
  "(string list list \<Rightarrow> int \<Rightarrow> int \<Rightarrow> py_error + string) list \<Rightarrow> string list list \<Rightarrow>
   int \<Rightarrow> int \<Rightarrow> string \<Rightarrow> py_error + string list list" where
  "apply_rules_cell [] new_map x y current_type = Inr new_map"
| "apply_rules_cell (rule # rs) new_map x y current_type =
     bind_r (rule new_map x y) (\<lambda>new_type.
       if new_type \<noteq> current_type then Inr (grid_set new_map x y new_type)
       else apply_rules_cell rs new_map x y current_type)"

definition apply_rules :: "string list list \<Rightarrow> py_error + string list list" where
  "apply_rules terrain_map =
     (case terrain_map of
        [] \<Rightarrow> Inl IndexError
      | row0 # _ \<Rightarrow>
          foldM_r (\<lambda>new_map (x, y).
              bind_r (grid_get new_map x y) (\<lambda>current_type.
                apply_rules_cell rules new_map x y current_type))
            terrain_map
            (grid_cells (int (length row0)) (int (length terrain_map))))"

text \<open>The double-buffered pass the specification describes (section 4.4 and the design
  notes): every rule reads the input grid \<open>terrain_map\<close> only, and the result goes to
  the output grid only. It differs from \<open>apply_rules\<close> in the grid the rules read.\<close>

fun snapshot_rules_cell ::
  "(string list list \<Rightarrow> int \<Rightarrow> int \<Rightarrow> py_error + string) list \<Rightarrow> string list list \<Rightarrow>
   string list list \<Rightarrow> int \<Rightarrow> int \<Rightarrow> string \<Rightarrow> py_error + string list list" where
  "snapshot_rules_cell [] terrain_map out_map x y current_type = Inr out_map"
| "snapshot_rules_cell (rule # rs) terrain_map out_map x y current_type =
     bind_r (rule terrain_map x y) (\<lambda>new_type.
       if new_type \<noteq> current_type then Inr (grid_set out_map x y new_type)
       else snapshot_rules_cell rs terrain_map out_map x y current_type)"

definition apply_rules_double_buffered :: "string list list \<Rightarrow> py_error + string list list" where
  "apply_rules_double_buffered terrain_map =
     (case terrain_map of
        [] \<Rightarrow> Inl IndexError
      | row0 # _ \<Rightarrow>
          foldM_r (\<lambda>out_map (x, y).
              bind_r (grid_get terrain_map x y) (\<lambda>current_type.
                snapshot_rules_cell rules terrain_map out_map x y current_type))
            terrain_map
            (grid_cells (int (length row0)) (int (length terrain_map))))"

section \<open>The random module\<close>

text \<open>
  Python's \<open>random\<close> module (a Mersenne Twister behind one global state) is not part of
  the repository, so the generator is a parameter of the model: the state that
  \<open>random.seed(n)\<close> installs, and what \<open>random.random()\<close> and
  \<open>random.randint(0, 2**32 - 1)\<close> return from a state together with the state they
  leave. The global state is passed explicitly through every function that touches it.
\<close>

record 'g prng =
  seed_rng :: "int \<Rightarrow> 'g"
  next_random :: "'g \<Rightarrow> real \<times> 'g"
  next_randint32 :: "'g \<Rightarrow> int \<times> 'g"

text \<open>\<open>random.uniform(a, b)\<close> is \<open>a + (b - a) * random()\<close>.\<close>

definition random_uniform :: "'g prng \<Rightarrow> 'g \<Rightarrow> real \<Rightarrow> real \<Rightarrow> real \<times> 'g" where
  "random_uniform P g a b = (let (u, g') = next_random P g in (a + (b - a) * u, g'))"

text \<open>\<open>np.random.seed(n)\<close> accepts \<open>0 \<le> n < 2**32\<close> only. numpy's own generator
  is seeded and never read, so its state is not modelled.\<close>

definition np_random_seed :: "int \<Rightarrow> py_error + unit" where
  "np_random_seed n = (if 0 \<le> n \<and> n < 2 ^ 32 then Inr () else Inl ValueError)"

text \<open>A generator for concrete runs: its state is the list of the values that
  \<open>random()\<close> will return, and seeding installs the list \<open>0, 0.9\<close>.\<close>

definition list_prng :: "(real list) prng" where
  "list_prng =
     \<lparr> seed_rng = (\<lambda>n. [0, 9 / 10]),
       next_random = (\<lambda>g. case g of [] \<Rightarrow> (0, []) | u # us \<Rightarrow> (u, us)),
       next_randint32 = (\<lambda>g. (0, g)) \<rparr>"

section \<open>biome\_generator.py: construction and noise\<close>

record biome_generator =
  bg_width :: int
  bg_height :: int
  bg_seed :: int

text \<open>\<open>BiomeGenerator.__init__\<close>: the fields are stored as given (no check of
  \<open>width\<close> or \<open>height\<close>); a missing seed is drawn from the global generator, which is
  then reseeded.\<close>

definition BiomeGenerator_init ::
  "'g prng \<Rightarrow> 'g \<Rightarrow> int \<Rightarrow> int \<Rightarrow> int option \<Rightarrow> py_error + (biome_generator \<times> 'g)" where
  "BiomeGenerator_init P g width height seed =
     (let (s, g1) = (case seed of Some s \<Rightarrow> (s, g) | None \<Rightarrow> next_randint32 P g);
          g2 = seed_rng P s
      in bind_r (np_random_seed s) (\<lambda>_.
           Inr (\<lparr> bg_width = width, bg_height = height, bg_seed = s \<rparr>, g2)))"

text \<open>\<open>np.linspace(0, stop, num)\<close>: a negative \<open>num\<close> raises; one sample is the
  start alone.\<close>

definition linspace :: "real \<Rightarrow> int \<Rightarrow> py_error + real list" where
  "linspace stop num =
     (if num < 0 then Inl ValueError
      else if num = 1 then Inr [0]
      else Inr (map (\<lambda>i. real_of_int i * stop / real_of_int (num - 1)) (py_range num)))"

text \<open>One cell after the octave loop:
  \<open>noise += sin(X * 2**octave) * cos(Y * 2**octave) / 2**octave\<close>.\<close>

definition noise_cell :: "int \<Rightarrow> real \<Rightarrow> real \<Rightarrow> real" where
  "noise_cell octaves x y =
     foldl (\<lambda>acc octave. acc + sin (x * 2 ^ nat octave) * cos (y * 2 ^ nat octave) / 2 ^ nat octave)
       0 (py_range octaves)"

text \<open>The field before normalisation: both ramps, the mesh and the accumulated sum, a
  grid of \<open>height\<close> rows of \<open>width\<close> cells (\<open>np.zeros\<close> is reached with non-negative
  sizes only, the ramps having raised otherwise).\<close>

definition accumulate_noise :: "int \<Rightarrow> int \<Rightarrow> real \<Rightarrow> int \<Rightarrow> py_error + real list list" where
  "accumulate_noise width height scale octaves =
     bind_r (linspace scale width) (\<lambda>xs.
     bind_r (linspace scale height) (\<lambda>ys.
       Inr (map (\<lambda>y. map (\<lambda>x. noise_cell octaves x y) xs) ys)))"

definition list_min :: "real list \<Rightarrow> real" where
  "list_min vs = foldl min (hd vs) (tl vs)"

definition list_max :: "real list \<Rightarrow> real" where
  "list_max vs = foldl max (hd vs) (tl vs)"

text \<open>\<open>(noise - noise.min()) / (noise.max() - noise.min())\<close>: the reductions raise
  \<open>ValueError\<close> on an array without elements; the division is element-wise and has no
  guard.\<close>

definition normalize :: "real list list \<Rightarrow> py_error + pyfloat list list" where
  "normalize noise =
     (if concat noise = [] then Inl ValueError
      else let mn = list_min (concat noise); mx = list_max (concat noise)
           in Inr (map (map (\<lambda>v. np_div (v - mn) (mx - mn))) noise))"

definition generate_noise_map :: "int \<Rightarrow> int \<Rightarrow> real \<Rightarrow> int \<Rightarrow> py_error + pyfloat list list" where
  "generate_noise_map width height scale octaves =
     bind_r (accumulate_noise width height scale octaves) normalize"

text \<open>\<open>BiomeGenerator.generate\<close>.\<close>

definition generate :: "biome_generator \<Rightarrow> py_error + (string list list \<times> string list list)" where
  "generate gen =
     bind_r (generate_noise_map (bg_width gen) (bg_height gen) 4 4) (\<lambda>elevation_map.
     bind_r (generate_noise_map (bg_width gen) (bg_height gen) 3 3) (\<lambda>moisture_map.
     bind_r (mapM_r (\<lambda>y. mapM_r (\<lambda>x.
                 bind_r (grid_get elevation_map x y) (\<lambda>elevation.
                 bind_r (grid_get moisture_map x y) (\<lambda>moisture.
                   Inr (get_biome elevation moisture))))
               (py_range (bg_width gen)))
             (py_range (bg_height gen))) (\<lambda>biome_map.
     bind_r (translate_biomes biome_map) (\<lambda>terrain_map.
       Inr (biome_map, terrain_map)))))"

section \<open>region\_generator.py: seed selection\<close>

record region_generator =
  rg_seed :: int

text \<open>\<open>RegionGenerator.__init__\<close>; the weight table is the constant below, its
  weights written as the decimals (they enter sums only, which are idealised as exact;
  what is proved about seed selection holds for every weight and every draw).\<close>

definition RegionGenerator_init ::
  "'g prng \<Rightarrow> 'g \<Rightarrow> int option \<Rightarrow> py_error + (region_generator \<times> 'g)" where
  "RegionGenerator_init P g seed =
     (let (s, g1) = (case seed of Some s \<Rightarrow> (s, g) | None \<Rightarrow> next_randint32 P g);
          g2 = seed_rng P s
      in bind_r (np_random_seed s) (\<lambda>_. Inr (\<lparr> rg_seed = s \<rparr>, g2)))"

definition biome_weights :: "(string \<times> real) list" where
  "biome_weights =
     [(''ocean'', 1 / 10), (''swamp'', 4 / 10), (''desert'', 6 / 10), (''grassland'', 1),
      (''forest'', 12 / 10), (''mountain'', 2 / 10), (''snow'', 4 / 10)]"

definition manhattan_distance :: "int \<Rightarrow> int \<Rightarrow> int \<Rightarrow> int \<Rightarrow> int" where
  "manhattan_distance x1 y1 x2 y2 = \<bar>x1 - x2\<bar> + \<bar>y1 - y2\<bar>"

definition get_biome_weight :: "string \<Rightarrow> real" where
  "get_biome_weight biome = (case map_of biome_weights biome of None \<Rightarrow> 5 / 10 | Some w \<Rightarrow> w)"

text \<open>\<open>int(np.sqrt((width * height) / (num_regions * 2)))\<close>: the true division raises
  on a zero divisor; the square root of a negative quotient is \<open>nan\<close>, which \<open>int\<close>
  refuses with \<open>ValueError\<close>.\<close>

definition min_distance_of :: "int \<Rightarrow> int \<Rightarrow> int \<Rightarrow> py_error + int" where
  "min_distance_of width height num_regions =
     (if num_regions * 2 = 0 then Inl ZeroDivisionError
      else if real_of_int (width * height) / real_of_int (num_regions * 2) < 0
        then Inl ValueError
      else Inr \<lfloor>sqrt (real_of_int (width * height) / real_of_int (num_regions * 2))\<rfloor>)"

text \<open>The list \<open>valid_positions\<close> before sorting.\<close>

definition all_positions ::
  "int \<Rightarrow> int \<Rightarrow> string list list \<Rightarrow> py_error + (int \<times> int \<times> real) list" where
  "all_positions width height biome_map =
     mapM_r (\<lambda>(x, y). bind_r (grid_get biome_map x y) (\<lambda>biome.
         Inr (x, y, get_biome_weight biome)))
       (grid_cells width height)"

text \<open>The scan \<open>for x, y, weight in valid_positions\<close> up to its \<open>break\<close>: the first
  position at which the running weight reaches \<open>r\<close>.\<close>

fun pick_position :: "real \<Rightarrow> real \<Rightarrow> (int \<times> int \<times> real) list \<Rightarrow> (int \<times> int) option" where
  "pick_position r current_weight [] = None"
| "pick_position r current_weight ((x, y, weight) # ps) =
     (if current_weight + weight \<ge> r then Some (x, y)
      else pick_position r (current_weight + weight) ps)"

text \<open>What one attempt does to \<open>seeds\<close> and \<open>valid_positions\<close> once \<open>r\<close> is drawn.\<close>

definition seed_attempt ::
  "int \<Rightarrow> real \<Rightarrow> (int \<times> int) list \<times> (int \<times> int \<times> real) list \<Rightarrow>
   (int \<times> int) list \<times> (int \<times> int \<times> real) list" where
  "seed_attempt min_distance r st =
     (case st of (seeds, valid_positions) \<Rightarrow>
       (case pick_position r 0 valid_positions of
          None \<Rightarrow> (seeds, valid_positions)
        | Some (x, y) \<Rightarrow>
            if list_ex (\<lambda>(sx, sy). manhattan_distance x y sx sy < min_distance) seeds
            then (seeds, valid_positions)
            else (seeds @ [(x, y)],
                  filter (\<lambda>(px, py, w). manhattan_distance px py x y \<ge> min_distance)
                    valid_positions)))"

text \<open>The \<open>while\<close> loop; it returns the seeds with the number of attempts made and the
  generator state left.\<close>

function seed_loop ::
  "'g prng \<Rightarrow> int \<Rightarrow> int \<Rightarrow> int \<Rightarrow> (int \<times> int) list \<Rightarrow> (int \<times> int \<times> real) list \<Rightarrow>
   int \<Rightarrow> 'g \<Rightarrow> (int \<times> int) list \<times> int \<times> 'g" where
  "seed_loop P num_regions max_attempts min_distance seeds valid_positions attempts g =
     (if int (length seeds) < num_regions \<and> attempts < max_attempts then
        (case random_uniform P g 0 (sum_list (map (\<lambda>(x, y, w). w) valid_positions)) of
           (r, g') \<Rightarrow>
             (case seed_attempt min_distance r (seeds, valid_positions) of
                (seeds', valid_positions') \<Rightarrow>
                  seed_loop P num_regions max_attempts min_distance seeds' valid_positions'
                    (attempts + 1) g'))
      else (seeds, attempts, g))"
  by pat_completeness auto
termination
  by (relation "measure (\<lambda>(P, n, max_attempts, d, seeds, valid, attempts, g).
        nat (max_attempts - attempts))") auto

declare seed_loop.simps [simp del]

text \<open>\<open>_generate_seed_points\<close> up to its \<open>return\<close>, with the loop's final state;
  the sort is Python's stable sort by descending weight.\<close>

definition seed_points_run ::
  "'g prng \<Rightarrow> 'g \<Rightarrow> int \<Rightarrow> int \<Rightarrow> int \<Rightarrow> string list list \<Rightarrow>
   py_error + ((int \<times> int) list \<times> int \<times> 'g)" where
  "seed_points_run P g width height num_regions biome_map =
     bind_r (min_distance_of width height num_regions) (\<lambda>min_distance.
     bind_r (all_positions width height biome_map) (\<lambda>positions.
       Inr (seed_loop P num_regions (num_regions * 100) min_distance []
              (sort_key (\<lambda>(x, y, w). - w) positions) 0 g)))"

definition generate_seed_points ::
  "'g prng \<Rightarrow> 'g \<Rightarrow> int \<Rightarrow> int \<Rightarrow> int \<Rightarrow> string list list \<Rightarrow>
   py_error + ((int \<times> int) list \<times> 'g)" where
  "generate_seed_points P g width height num_regions biome_map =
     bind_r (seed_points_run P g width height num_regions biome_map)
       (\<lambda>(seeds, attempts, g'). Inr (seeds, g'))"

text \<open>Seeds are separated by \<open>d\<close> when every two of them, at different places of the
  list, are at Manhattan distance at least \<open>d\<close>.\<close>

definition separated :: "int \<Rightarrow> (int \<times> int) list \<Rightarrow> bool" where
  "separated d seeds =
     (\<forall>j < length seeds. \<forall>i < j.
        d \<le> manhattan_distance (fst (seeds ! i)) (snd (seeds ! i))
              (fst (seeds ! j)) (snd (seeds ! j)))"

text \<open>A grid that has a cell for every \<open>(x, y)\<close> of \<open>range(width) \<times> range(height)\<close>.\<close>

definition covers :: "'a list list \<Rightarrow> int \<Rightarrow> int \<Rightarrow> bool" where
  "covers m width height =
     (nat height \<le> length m \<and> list_all (\<lambda>row. nat width \<le> length row) (take (nat height) m))"

section \<open>region\_generator.py: assignment, smoothing and the whole run\<close>

text \<open>A \<open>Counter\<close> is a dict, which keeps its keys in the order of first insertion:
  an association list. \<open>most_common(1)\<close> is \<open>max\<close> over the items by count, which
  returns the first item among those of the highest count.\<close>

fun counter_incr :: "'a \<Rightarrow> ('a \<times> int) list \<Rightarrow> ('a \<times> int) list" where
  "counter_incr b [] = [(b, 1)]"
| "counter_incr b ((k, c) # cs) =
     (if k = b then (k, c + 1) # cs else (k, c) # counter_incr b cs)"

definition counter_of :: "'a list \<Rightarrow> ('a \<times> int) list" where
  "counter_of xs = foldl (\<lambda>cs x. counter_incr x cs) [] xs"

definition most_common1 :: "('a \<times> int) list \<Rightarrow> 'a option" where
  "most_common1 cs =
     (case cs of
        [] \<Rightarrow> None
      | item # rest \<Rightarrow>
          Some (fst (foldl (\<lambda>best it. if snd best < snd it then it else best) item rest)))"

text \<open>A set of tiles as the list of its elements in the order they were added.\<close>

definition set_add :: "'a \<Rightarrow> 'a list \<Rightarrow> 'a list" where
  "set_add t ts = (if t \<in> set ts then ts else ts @ [t])"

record region =
  region_id :: int
  seed :: "int \<times> int"
  area :: int
  tiles :: "(int \<times> int) list"
  biome_counts :: "(string \<times> int) list"
  dominant_biome :: "string option"
  centroid :: "int \<times> int"

text \<open>The value the \<open>defaultdict\<close> makes for a missing key.\<close>

definition default_region :: region where
  "default_region =
     \<lparr> region_id = -1, seed = (0, 0), area = 0, tiles = [], biome_counts = [],
       dominant_biome = None, centroid = (0, 0) \<rparr>"

text \<open>The loop \<open>for i, (x, y) in enumerate(seeds): region_data[i].update(...)\<close>.\<close>

definition init_region_data :: "(int \<times> int) list \<Rightarrow> (int \<rightharpoonup> region)" where
  "init_region_data seeds =
     foldl (\<lambda>region_data (i, (x, y)).
         region_data(i \<mapsto> \<lparr> region_id = i, seed = (x, y), area = 0, tiles = [],
           biome_counts = [], dominant_biome = None, centroid = (x, y) \<rparr>))
       Map.empty (zip (map int [0..<length seeds]) seeds)"

text \<open>The scan \<open>for i, (sx, sy) in enumerate(seeds)\<close> for one tile; \<open>min_dist\<close> is
  \<open>None\<close> while it is \<open>float('inf')\<close>.\<close>

fun nearest_loop :: "int \<Rightarrow> int \<Rightarrow> (int \<times> int) list \<Rightarrow> int \<Rightarrow> int option \<Rightarrow> int \<Rightarrow> int" where
  "nearest_loop x y [] i min_dist nearest_region = nearest_region"
| "nearest_loop x y ((sx, sy) # seeds) i min_dist nearest_region =
     (if (case min_dist of None \<Rightarrow> True
          | Some m \<Rightarrow> manhattan_distance x y sx sy < m)
      then nearest_loop x y seeds (i + 1) (Some (manhattan_distance x y sx sy)) i
      else nearest_loop x y seeds (i + 1) min_dist nearest_region)"

definition nearest_region :: "(int \<times> int) list \<Rightarrow> int \<Rightarrow> int \<Rightarrow> int" where
  "nearest_region seeds x y = nearest_loop x y seeds 0 None (-1)"

text \<open>The body of the tile loop: the region map and the region's record are updated,
  then \<open>biome_map[y][x]\<close> is read for the count.\<close>

definition assign_tile ::
  "(int \<times> int) list \<Rightarrow> string list list \<Rightarrow> int list list \<times> (int \<rightharpoonup> region) \<Rightarrow>
   int \<times> int \<Rightarrow> py_error + (int list list \<times> (int \<rightharpoonup> region))" where
  "assign_tile seeds biome_map st c =
     (case st of (region_map, region_data) \<Rightarrow> (case c of (x, y) \<Rightarrow>
       let nearest = nearest_region seeds x y;
           data = (case region_data nearest of None \<Rightarrow> default_region | Some d \<Rightarrow> d)
       in bind_r (grid_get biome_map x y) (\<lambda>biome.
            Inr (grid_set region_map x y nearest,
                 region_data(nearest \<mapsto>
                   data\<lparr> area := area data + 1, tiles := set_add (x, y) (tiles data),
                         biome_counts := counter_incr biome (biome_counts data) \<rparr>)))))"

text \<open>The last loop of \<open>_assign_tiles_to_regions\<close>, on one record.\<close>

definition finalize_region :: "region \<Rightarrow> region" where
  "finalize_region data =
     (let data1 = (if biome_counts data \<noteq> []
                   then data\<lparr> dominant_biome := most_common1 (biome_counts data) \<rparr>
                   else data)
      in if tiles data1 \<noteq> []
         then data1\<lparr> centroid := (sum_list (map fst (tiles data1)) div area data1,
                                   sum_list (map snd (tiles data1)) div area data1) \<rparr>
         else data1)"

definition assign_tiles_to_regions ::
  "int \<Rightarrow> int \<Rightarrow> (int \<times> int) list \<Rightarrow> string list list \<Rightarrow>
   py_error + (int list list \<times> (int \<rightharpoonup> region))" where
  "assign_tiles_to_regions width height seeds biome_map =
     bind_r (foldM_r (assign_tile seeds biome_map)
               (replicate (nat height) (replicate (nat width) (-1)), init_region_data seeds)
               (grid_cells width height))
       (\<lambda>(region_map, region_data).
          Inr (region_map, (\<lambda>k. map_option finalize_region (region_data k))))"

text \<open>\<open>m[y][x] = v\<close>, which raises on a cell that does not exist.\<close>

definition grid_put :: "'a list list \<Rightarrow> int \<Rightarrow> int \<Rightarrow> 'a \<Rightarrow> py_error + 'a list list" where
  "grid_put m x y v =
     (if 0 \<le> y \<and> nat y < length m \<and> 0 \<le> x \<and> nat x < length (m ! nat y)
      then Inr (grid_set m x y v) else Inl IndexError)"

text \<open>\<open>_smooth_regions\<close>: the neighbours are read from \<open>smoothed\<close>, the grid of the
  pass before, and written to \<open>new_map\<close>.\<close>

definition smooth_neighbors :: "int list list \<Rightarrow> int \<Rightarrow> int \<Rightarrow> int \<Rightarrow> int \<Rightarrow> py_error + int list" where
  "smooth_neighbors smoothed width height x y =
     mapM_r (\<lambda>(dx, dy). grid_get smoothed (x + dx) (y + dy))
       (filter (\<lambda>(dx, dy). 0 \<le> x + dx \<and> x + dx < width \<and> 0 \<le> y + dy \<and> y + dy < height)
          neighbor_offsets)"

definition smooth_tile ::
  "int list list \<Rightarrow> int \<Rightarrow> int \<Rightarrow> int list list \<Rightarrow> int \<times> int \<Rightarrow> py_error + int list list" where
  "smooth_tile smoothed width height new_map c =
     (case c of (x, y) \<Rightarrow>
       bind_r (smooth_neighbors smoothed width height x y) (\<lambda>neighbors.
         if neighbors = [] then Inr new_map
         else (case most_common1 (counter_of neighbors) of
                 None \<Rightarrow> Inl IndexError
               | Some v \<Rightarrow> grid_put new_map x y v)))"

definition smooth_pass :: "int list list \<Rightarrow> int \<Rightarrow> int \<Rightarrow> py_error + int list list" where
  "smooth_pass smoothed width height =
     foldM_r (smooth_tile smoothed width height) smoothed (grid_cells width height)"

definition smooth_regions :: "int list list \<Rightarrow> int \<Rightarrow> py_error + int list list" where
  "smooth_regions region_map iterations =
     (case region_map of
        [] \<Rightarrow> Inl IndexError
      | row0 # _ \<Rightarrow>
          foldM_r (\<lambda>smoothed _. smooth_pass smoothed (int (length row0)) (int (length region_map)))
            region_map (py_range iterations))"

text \<open>\<open>generate_regions\<close>; \<open>min_region_size\<close> is passed on and never read.\<close>

definition generate_regions ::
  "'g prng \<Rightarrow> 'g \<Rightarrow> int \<Rightarrow> int \<Rightarrow> int \<Rightarrow> string list list \<Rightarrow>
   py_error + ((int list list \<times> (int \<times> int) list \<times> (int \<rightharpoonup> region)) \<times> 'g)" where
  "generate_regions P g width height num_regions biome_map =
     bind_r (generate_seed_points P g width height num_regions biome_map) (\<lambda>(seeds, g').
     bind_r (assign_tiles_to_regions width height seeds biome_map) (\<lambda>(region_map, region_data).
     bind_r (smooth_regions region_map 2) (\<lambda>smoothed.
       Inr ((smoothed, seeds, region_data), g'))))"

text \<open>The whole run, as \<open>main\<close> of region\_generator.py composes it: a biome generator
  and a region generator built from the same seed and the same dimensions.\<close>

definition pipeline ::
  "'g prng \<Rightarrow> 'g \<Rightarrow> int \<Rightarrow> int \<Rightarrow> int \<Rightarrow> int \<Rightarrow>
   py_error + (string list list \<times> string list list \<times> int list list \<times> (int \<times> int) list
               \<times> (int \<rightharpoonup> region))" where
  "pipeline P g seed_value width height num_regions =
     bind_r (BiomeGenerator_init P g width height (Some seed_value)) (\<lambda>(biome_gen, g1).
     bind_r (generate biome_gen) (\<lambda>(biome_map, terrain_map).
     bind_r (RegionGenerator_init P g1 (Some seed_value)) (\<lambda>(region_gen, g2).
     bind_r (generate_regions P g2 width height num_regions biome_map)
       (\<lambda>((region_map, seeds, region_data), g3).
          Inr (biome_map, terrain_map, region_map, seeds, region_data)))))"

text \<open>The state of the tile loop after the cells \<open>done\<close>: the region map has its shape
  and holds the nearest seed's index at every cell done.\<close>

definition grid_inv ::
  "(int \<times> int) list \<Rightarrow> int \<Rightarrow> int \<Rightarrow> (int \<times> int) list \<Rightarrow> int list list \<Rightarrow> bool" where
  "grid_inv seeds width height done region_map =
     (length region_map = nat height
      \<and> (\<forall>i < nat height. length (region_map ! i) = nat width)
      \<and> (\<forall>c \<in> set done. 0 \<le> fst c \<and> 0 \<le> snd c
            \<and> region_map ! nat (snd c) ! nat (fst c) = nearest_region seeds (fst c) (snd c)))"

text \<open>The records of the tile loop after the cells \<open>done\<close>: each record holds the cells
  done whose nearest seed it is, their number and the tally of their biomes; a key
  without a record has had no cell.\<close>

definition data_inv ::
  "(int \<times> int) list \<Rightarrow> string list list \<Rightarrow> (int \<times> int) list \<Rightarrow> (int \<rightharpoonup> region) \<Rightarrow> bool" where
  "data_inv seeds biome_map done region_data =
     (\<forall>k. case region_data k of
        None \<Rightarrow> filter (\<lambda>(x, y). nearest_region seeds x y = k) done = []
      | Some r \<Rightarrow>
          tiles r = filter (\<lambda>(x, y). nearest_region seeds x y = k) done
          \<and> area r = int (length (tiles r))
          \<and> biome_counts r = counter_of (map (\<lambda>(x, y). biome_map ! nat y ! nat x) (tiles r))
          \<and> dominant_biome r = None \<and> centroid r = seed r)"

text \<open>The classifier as the specification words it (section 4.2, "first match wins"),
  kept apart from \<open>get_biome\<close> so that the two can be compared. Its thresholds are the
  decimals as written.\<close>

definition classify_spec :: "real \<Rightarrow> real \<Rightarrow> string" where
  "classify_spec e m =
     (if e < 0.2 then ''ocean''
      else if e > 0.8 then (if m > 0.5 then ''snow'' else ''mountain'')
      else if e > 0.5 then
        (if m > 0.7 then ''forest'' else if m > 0.4 then ''grassland'' else ''steppe'')
      else (if m > 0.7 then ''swamp'' else if m > 0.4 then ''grassland'' else ''desert''))"

text \<open>The same decision order with every threshold read as a floating-point program reads
  the literal, as its binary64 value.\<close>

definition classify_spec_binary64 :: "real \<Rightarrow> real \<Rightarrow> string" where
  "classify_spec_binary64 e m =
     (if e < f64_0_2 then ''ocean''
      else if e > f64_0_8 then (if m > 0.5 then ''snow'' else ''mountain'')
      else if e > 0.5 then
        (if m > f64_0_7 then ''forest'' else if m > f64_0_4 then ''grassland'' else ''steppe'')
      else (if m > f64_0_7 then ''swamp'' else if m > f64_0_4 then ''grassland'' else ''desert''))"

text \<open>The inputs on which a comparison against the decimal and the comparison against
  the literal's binary64 value can differ: the four intervals between a decimal and its
  binary64 value, each shorter than \<open>2 ^ -53\<close>.\<close>

definition in_rounding_gap :: "real \<Rightarrow> real \<Rightarrow> bool" where
  "in_rounding_gap e m =
     ((2 / 10 \<le> e \<and> e < f64_0_2) \<or> (8 / 10 < e \<and> e \<le> f64_0_8)
      \<or> (f64_0_7 < m \<and> m \<le> 7 / 10) \<or> (4 / 10 < m \<and> m \<le> f64_0_4))"

section \<open>Properties of the classifier and of the colour lookup\<close>

lemma distinct_biome_labels: "distinct biome_labels"
  by (simp add: biome_labels_def biome_defs)

text \<open>The binary64 numbers of \<open>[1/8, 1/4)\<close>, \<open>[1/4, 1/2)\<close> and \<open>[1/2, 1)\<close> are the
  integer multiples of \<open>2 ^ -55\<close>, \<open>2 ^ -54\<close> and \<open>2 ^ -53\<close> there. The only ones in a
  rounding gap are the elevation \<open>0.8\<close> and the moisture \<open>0.4\<close> themselves.\<close>

lemma rounding_gaps_binary64:
  fixes k :: int
  shows "\<not> (2 / 10 \<le> real_of_int k / 2 ^ 55 \<and> real_of_int k / 2 ^ 55 < f64_0_2)"
    and "8 / 10 < real_of_int k / 2 ^ 53 \<and> real_of_int k / 2 ^ 53 \<le> f64_0_8
           \<Longrightarrow> real_of_int k / 2 ^ 53 = f64_0_8"
    and "\<not> (f64_0_7 < real_of_int k / 2 ^ 53 \<and> real_of_int k / 2 ^ 53 \<le> 7 / 10)"
    and "4 / 10 < real_of_int k / 2 ^ 54 \<and> real_of_int k / 2 ^ 54 \<le> f64_0_4
           \<Longrightarrow> real_of_int k / 2 ^ 54 = f64_0_4"
proof -
  show "\<not> (2 / 10 \<le> real_of_int k / 2 ^ 55 \<and> real_of_int k / 2 ^ 55 < f64_0_2)"
  proof
    assume a: "2 / 10 \<le> real_of_int k / 2 ^ 55 \<and> real_of_int k / 2 ^ 55 < f64_0_2"
    then have "real_of_int 7205759403792793 < real_of_int k"
      "real_of_int k < real_of_int 7205759403792794"
      by (simp_all add: f64_defs field_simps)
    then have "7205759403792793 < k" "k < 7205759403792794"
      by (simp_all only: of_int_less_iff)
    then show False by simp
  qed
  show "real_of_int k / 2 ^ 53 = f64_0_8"
    if a: "8 / 10 < real_of_int k / 2 ^ 53 \<and> real_of_int k / 2 ^ 53 \<le> f64_0_8"
  proof -
    have "real_of_int 7205759403792793 < real_of_int k"
      "real_of_int k \<le> real_of_int 7205759403792794"
      using a by (simp_all add: f64_defs field_simps)
    then have "7205759403792793 < k" "k \<le> 7205759403792794"
      by (simp_all only: of_int_less_iff of_int_le_iff)
    then have "k = 7205759403792794" by simp
    then show ?thesis by (simp add: f64_defs)
  qed
  show "\<not> (f64_0_7 < real_of_int k / 2 ^ 53 \<and> real_of_int k / 2 ^ 53 \<le> 7 / 10)"
  proof
    assume a: "f64_0_7 < real_of_int k / 2 ^ 53 \<and> real_of_int k / 2 ^ 53 \<le> 7 / 10"
    then have "real_of_int 6305039478318694 < real_of_int k"
      "real_of_int k < real_of_int 6305039478318695"
      by (simp_all add: f64_defs field_simps)
    then have "6305039478318694 < k" "k < 6305039478318695"
      by (simp_all only: of_int_less_iff)
    then show False by simp
  qed
  show "real_of_int k / 2 ^ 54 = f64_0_4"
    if a: "4 / 10 < real_of_int k / 2 ^ 54 \<and> real_of_int k / 2 ^ 54 \<le> f64_0_4"
  proof -
    have "real_of_int 7205759403792793 < real_of_int k"
      "real_of_int k \<le> real_of_int 7205759403792794"
      using a by (simp_all add: f64_defs field_simps)
    then have "7205759403792793 < k" "k \<le> 7205759403792794"
      by (simp_all only: of_int_less_iff of_int_le_iff)
    then have "k = 7205759403792794" by simp
    then show ?thesis by (simp add: f64_defs)
  qed
qed

text \<open>At the two binary64 inputs inside a gap the code takes the branch of "not greater":
  the elevation \<open>0.8\<close> is not above the threshold \<open>0.8\<close>, nor the moisture \<open>0.4\<close>
  above \<open>0.4\<close>.\<close>

lemma get_biome_at_thresholds:
  "get_biome (Fin f64_0_8) (Fin (6 / 10)) = ''grassland''
   \<and> get_biome (Fin (3 / 10)) (Fin f64_0_4) = ''desert''"
  by (simp add: get_biome_def fgt_def f64_defs biome_defs)

text \<open>
  Claim C6. For every elevation and moisture in \<open>[0,1]\<close>, \<open>_get_biome\<close> returns one of
  the eight (pairwise distinct) biome labels, and the label is the one the documented
  first-match decision order gives, its thresholds being the literals as a floating-point
  program reads them. Read as exact decimals the thresholds give the same label on every
  input outside the four rounding gaps.
\<close>

theorem get_biome_decision_order:
  assumes "0 \<le> e" "e \<le> 1" "0 \<le> m" "m \<le> 1"
  shows "get_biome (Fin e) (Fin m) = classify_spec_binary64 e m
       \<and> (\<not> in_rounding_gap e m \<longrightarrow> get_biome (Fin e) (Fin m) = classify_spec e m)
       \<and> get_biome (Fin e) (Fin m) \<in> set biome_labels
       \<and> distinct biome_labels \<and> length biome_labels = 8"
proof -
  have a: "get_biome (Fin e) (Fin m) = classify_spec_binary64 e m"
    by (simp add: get_biome_def classify_spec_binary64_def fgt_def biome_defs)
  have b: "classify_spec_binary64 e m = classify_spec e m" if "\<not> in_rounding_gap e m"
    using that
    by (auto simp: classify_spec_binary64_def classify_spec_def in_rounding_gap_def f64_defs)
  have c: "classify_spec_binary64 e m \<in> set biome_labels"
    by (simp add: classify_spec_binary64_def biome_labels_def biome_defs)
  show ?thesis using a b c distinct_biome_labels by (simp add: biome_labels_def)
qed

theorem get_biome_decision_order_witness:
  "(0::real) \<le> 9/10 \<and> (9/10::real) \<le> 1 \<and> (0::real) \<le> 6/10 \<and> (6/10::real) \<le> 1
   \<and> \<not> in_rounding_gap (9/10) (6/10)
   \<and> get_biome (Fin (9/10)) (Fin (6/10)) = ''snow''
   \<and> classify_spec (9/10) (6/10) = ''snow''
   \<and> classify_spec_binary64 (9/10) (6/10) = ''snow''
   \<and> get_biome (Fin (9/10)) (Fin (6/10)) \<in> set biome_labels"
proof -
  have gap: "\<not> in_rounding_gap (9/10) (6/10)"
    by (simp add: in_rounding_gap_def f64_defs)
  have spec: "classify_spec (9/10) (6/10) = ''snow''" by (simp add: classify_spec_def)
  have lit: "classify_spec_binary64 (9/10) (6/10) = ''snow''"
    by (simp add: classify_spec_binary64_def f64_defs)
  show ?thesis
    using get_biome_decision_order [of "9/10" "6/10"] gap spec lit
    by (simp add: biome_labels_def biome_defs)
qed

lemma map_of_color_map_Some: "s \<in> set biome_labels \<Longrightarrow> \<exists>c. map_of color_map s = Some c"
  by (auto simp: biome_labels_def color_map_def)

lemma map_of_color_map_None: "s \<notin> set biome_labels \<Longrightarrow> map_of color_map s = None"
  by (auto simp: biome_labels_def color_map_def)

lemma mapM_r_not_KeyError:
  "(\<And>x. x \<in> set xs \<Longrightarrow> f x \<noteq> Inl KeyError) \<Longrightarrow> mapM_r f xs \<noteq> Inl KeyError"
  by (induction xs) (auto split: sum.splits)

lemma grid_get_in: "grid_get m x y = Inr v \<Longrightarrow> v \<in> \<Union>(set ` set m)"
  by (auto simp: grid_get_def split: if_splits intro!: bexI [of _ "m ! nat y"])

lemma grid_get_err: "grid_get m x y = Inl e \<Longrightarrow> e = IndexError"
  by (auto simp: grid_get_def split: if_splits)

text \<open>
  Claim C10. \<open>BiomeType.get_color\<close> is partial: it returns a colour on each of the eight
  labels and raises \<open>KeyError\<close> on every other string, where the terrain mapper falls
  back to grass and the terrain renderer to magenta. So the pixel loop of
  \<open>render_to_image\<close> raises no \<open>KeyError\<close> on a grid whose cells are all among the
  eight labels, and it does raise one on some grid.
\<close>

theorem get_color_partial:
  "(s \<in> set biome_labels \<longrightarrow> (\<exists>c. get_color s = Inr c))
   \<and> (s \<notin> set biome_labels \<longrightarrow>
        get_color s = Inl KeyError \<and> get_terrain_for_biome s = GRASS)
   \<and> (t \<notin> fst ` set terrain_colors \<longrightarrow> terrain_color t = (255, 0, 255))
   \<and> (list_all (list_all (\<lambda>b. b \<in> set biome_labels)) biome_map \<longrightarrow>
        render_pixels width height biome_map \<noteq> Inl KeyError)
   \<and> get_color ''dirt'' = Inl KeyError
   \<and> render_pixels 1 1 [[''dirt'']] = Inl KeyError"
proof -
  have a: "s \<in> set biome_labels \<longrightarrow> (\<exists>c. get_color s = Inr c)"
    using map_of_color_map_Some [of s] by (auto simp: get_color_def)
  have b: "s \<notin> set biome_labels \<longrightarrow> get_color s = Inl KeyError \<and> get_terrain_for_biome s = GRASS"
    using map_of_color_map_None [of s]
    by (auto simp: get_color_def get_terrain_for_biome_def biome_to_terrain_def biome_labels_def)
  have c: "t \<notin> fst ` set terrain_colors \<longrightarrow> terrain_color t = (255, 0, 255)"
    by (auto simp: terrain_color_def map_of_eq_None_iff [symmetric])
  have d: "render_pixels width height biome_map \<noteq> Inl KeyError"
    if all: "list_all (list_all (\<lambda>b. b \<in> set biome_labels)) biome_map"
  proof -
    have cell: "bind_r (grid_get biome_map x y) get_color \<noteq> Inl KeyError" for x y
    proof (cases "grid_get biome_map x y")
      case (Inl e)
      then show ?thesis using grid_get_err [OF Inl] by (simp add: bind_r_def)
    next
      case (Inr v)
      then have "v \<in> set biome_labels"
        using grid_get_in [OF Inr] all by (auto simp: list_all_iff)
      then show ?thesis using Inr map_of_color_map_Some [of v]
        by (auto simp: bind_r_def get_color_def)
    qed
    show ?thesis unfolding render_pixels_def
      by (rule mapM_r_not_KeyError, rule mapM_r_not_KeyError, rule cell)
  qed
  have e: "get_color ''dirt'' = Inl KeyError"
    by (simp add: get_color_def color_map_def biome_defs)
  have f: "render_pixels 1 1 [[''dirt'']] = Inl KeyError"
    by (simp add: render_pixels_def py_range_def grid_get_def bind_r_def e)
  show ?thesis using a b c d e f by blast
qed

theorem get_color_partial_witness:
  "''forest'' \<in> set biome_labels \<and> (\<exists>c. get_color ''forest'' = Inr c)
   \<and> ''lava'' \<notin> set biome_labels \<and> get_color ''lava'' = Inl KeyError
   \<and> get_terrain_for_biome ''lava'' = ''grass''
   \<and> ''lava'' \<notin> fst ` set terrain_colors \<and> terrain_color ''lava'' = (255, 0, 255)
   \<and> list_all (list_all (\<lambda>b. b \<in> set biome_labels)) [[''ocean'', ''snow'']]
   \<and> render_pixels 2 1 [[''ocean'', ''snow'']] \<noteq> Inl KeyError"
proof -
  have 1: "''forest'' \<in> set biome_labels" by (simp add: biome_labels_def biome_defs)
  have 2: "''lava'' \<notin> set biome_labels" by (simp add: biome_labels_def biome_defs)
  have 3: "''lava'' \<notin> fst ` set terrain_colors" by (simp add: terrain_colors_def)
  have 4: "list_all (list_all (\<lambda>b. b \<in> set biome_labels)) [[''ocean'', ''snow'']]"
    by (simp add: biome_labels_def biome_defs)
  show ?thesis
    using get_color_partial [of "''forest''" "''x''" "[]" 0 0]
      get_color_partial [of "''lava''" "''lava''" "[[''ocean'', ''snow'']]" 2 1] 1 2 3 4
    by (simp add: GRASS_def)
qed

section \<open>Properties of the rule engine\<close>

text \<open>
  Claim C1 (fails on the code). The claim asks that one pass of \<open>apply_rules\<close> equal the
  double-buffered pass, whose neighbour lookups all read the input grid. On the row
  deep water, mountain, forest the code rewrites the mountain to forest and then
  evaluates the third cell against the rewritten neighbour, so the forest stays; the
  double-buffered pass sees the mountain of the input there and turns the isolated forest
  into grass.
\<close>

theorem apply_rules_reads_rewritten_cells:
  "apply_rules [[''deep_water'', ''mountain'', ''forest'']]
     = Inr [[''deep_water'', ''forest'', ''forest'']]
   \<and> apply_rules_double_buffered [[''deep_water'', ''mountain'', ''forest'']]
     = Inr [[''deep_water'', ''forest'', ''grass'']]"
  by code_simp

section \<open>Properties of noise generation and of the generator's construction\<close>

lemma mapM_r_Inr:
  "(\<And>x. x \<in> set xs \<Longrightarrow> f x = Inr (g x)) \<Longrightarrow> mapM_r f xs = Inr (map g xs)"
  by (induction xs) auto

lemma set_py_range: "set (py_range n) = {i. 0 \<le> i \<and> i < n}"
proof -
  have "i \<in> int ` {0..<nat n} \<longleftrightarrow> 0 \<le> i \<and> i < n" for i
  proof
    assume "i \<in> int ` {0..<nat n}"
    then show "0 \<le> i \<and> i < n" by auto
  next
    assume a: "0 \<le> i \<and> i < n"
    then have "nat i \<in> {0..<nat n}" "i = int (nat i)" by auto
    then show "i \<in> int ` {0..<nat n}" by (rule_tac x="nat i" in image_eqI)
  qed
  then show ?thesis by (auto simp: py_range_def)
qed

lemma length_py_range: "length (py_range n) = nat n"
  by (simp add: py_range_def)

lemma linspace_Inr: "0 \<le> num \<Longrightarrow> \<exists>xs. linspace stop num = Inr xs \<and> length xs = nat num"
  by (auto simp: linspace_def length_py_range)

lemma linspace_neg: "num < 0 \<Longrightarrow> linspace stop num = Inl ValueError"
  by (simp add: linspace_def)

lemma accumulate_noise_shape:
  assumes "0 \<le> width" "0 \<le> height"
  shows "\<exists>noise. accumulate_noise width height scale octaves = Inr noise
           \<and> length noise = nat height \<and> (\<forall>row \<in> set noise. length row = nat width)"
proof -
  obtain xs where xs: "linspace scale width = Inr xs" "length xs = nat width"
    using linspace_Inr [OF assms(1)] by blast
  obtain ys where ys: "linspace scale height = Inr ys" "length ys = nat height"
    using linspace_Inr [OF assms(2)] by blast
  show ?thesis using xs ys by (simp add: accumulate_noise_def bind_r_def)
qed

lemma accumulate_noise_neg:
  "width < 0 \<or> height < 0 \<Longrightarrow> accumulate_noise width height scale octaves = Inl ValueError"
  using linspace_Inr [of width scale] linspace_neg [of width scale] linspace_neg [of height scale]
  by (cases "width < 0") (auto simp: accumulate_noise_def bind_r_def)

lemma concat_empty_iff_shape:
  assumes "length noise = nat height" "\<forall>row \<in> set noise. length row = nat width"
  shows "concat noise = [] \<longleftrightarrow> height \<le> 0 \<or> width \<le> 0"
proof (cases "noise = []")
  case True
  then show ?thesis using assms by auto
next
  case False
  then obtain r where r: "r \<in> set noise" by (cases noise) auto
  have h: "0 < height" using False assms(1) by (cases "height \<le> 0") auto
  show ?thesis
  proof (cases "width \<le> 0")
    case True
    then have "\<forall>row \<in> set noise. row = []" using assms(2) by auto
    then show ?thesis using True by auto
  next
    case w: False
    then have "r \<noteq> []" using assms(2) r by auto
    then show ?thesis using r w h by auto
  qed
qed

lemma normalize_shape:
  assumes "concat noise \<noteq> []"
  shows "\<exists>grid. normalize noise = Inr grid \<and> length grid = length noise
          \<and> (\<forall>i < length noise. length (grid ! i) = length (noise ! i))"
  using assms by (simp add: normalize_def Let_def)

lemma generate_noise_map_shape:
  assumes "0 < width" "0 < height"
  shows "\<exists>grid. generate_noise_map width height scale octaves = Inr grid
           \<and> length grid = nat height \<and> (\<forall>i < nat height. length (grid ! i) = nat width)"
proof -
  obtain noise where n: "accumulate_noise width height scale octaves = Inr noise"
      "length noise = nat height" "\<forall>row \<in> set noise. length row = nat width"
    using accumulate_noise_shape [of width height scale octaves] assms by auto
  have ne: "concat noise \<noteq> []"
    using concat_empty_iff_shape [OF n(2,3)] assms by auto
  obtain grid where g: "normalize noise = Inr grid" "length grid = length noise"
      "\<forall>i < length noise. length (grid ! i) = length (noise ! i)"
    using normalize_shape [OF ne] by blast
  have "\<forall>i < nat height. length (grid ! i) = nat width"
    using g(3) n(2,3) by auto
  then show ?thesis using n g by (simp add: generate_noise_map_def bind_r_def)
qed

lemma generate_noise_map_nonpos:
  assumes "width \<le> 0 \<or> height \<le> 0"
  shows "generate_noise_map width height scale octaves = Inl ValueError"
proof (cases "width < 0 \<or> height < 0")
  case True
  then show ?thesis
    by (simp add: generate_noise_map_def accumulate_noise_neg bind_r_def)
next
  case False
  then obtain noise where n: "accumulate_noise width height scale octaves = Inr noise"
      "length noise = nat height" "\<forall>row \<in> set noise. length row = nat width"
    using accumulate_noise_shape [of width height scale octaves] by auto
  have "concat noise = []"
    using concat_empty_iff_shape [OF n(2,3)] assms by auto
  then show ?thesis using n by (simp add: generate_noise_map_def bind_r_def normalize_def)
qed

lemma grid_get_Inr:
  "0 \<le> y \<Longrightarrow> nat y < length m \<Longrightarrow> 0 \<le> x \<Longrightarrow> nat x < length (m ! nat y)
   \<Longrightarrow> grid_get m x y = Inr (m ! nat y ! nat x)"
  by (simp add: grid_get_def)

lemma translate_biomes_Inr:
  assumes "biome_map \<noteq> []" "\<forall>row \<in> set biome_map. length row = length (hd biome_map)"
  shows "\<exists>t. translate_biomes biome_map = Inr t"
proof -
  obtain row0 rest where bm: "biome_map = row0 # rest" using assms(1) by (cases biome_map) auto
  have cell: "bind_r (grid_get biome_map x y) (\<lambda>biome. Inr (get_terrain_for_biome biome))
      = Inr (get_terrain_for_biome (biome_map ! nat y ! nat x))"
    if "x \<in> set (py_range (int (length row0)))" "y \<in> set (py_range (int (length biome_map)))" for x y
  proof -
    have y: "0 \<le> y" "nat y < length biome_map" using that(2) by (auto simp: set_py_range)
    then have "length (biome_map ! nat y) = length row0" using assms(2) bm
      by (metis list.sel(1) nth_mem)
    moreover have "0 \<le> x" "nat x < length row0" using that(1) by (auto simp: set_py_range)
    ultimately show ?thesis using y by (simp add: grid_get_Inr bind_r_def)
  qed
  have "mapM_r (\<lambda>y. mapM_r (\<lambda>x.
                bind_r (grid_get biome_map x y) (\<lambda>biome. Inr (get_terrain_for_biome biome)))
              (py_range (int (length row0))))
            (py_range (int (length biome_map)))
        = Inr (map (\<lambda>y. map (\<lambda>x. get_terrain_for_biome (biome_map ! nat y ! nat x))
             (py_range (int (length row0)))) (py_range (int (length biome_map))))"
    by (rule mapM_r_Inr, rule mapM_r_Inr, rule cell)
  then show ?thesis using bm by (simp add: translate_biomes_def)
qed

lemma generate_Inr:
  assumes "0 < bg_width gen" "0 < bg_height gen"
  shows "\<exists>biome_map terrain_map. generate gen = Inr (biome_map, terrain_map)"
proof -
  let ?w = "bg_width gen" and ?h = "bg_height gen"
  obtain el where el: "generate_noise_map ?w ?h 4 4 = Inr el" "length el = nat ?h"
      "\<forall>i < nat ?h. length (el ! i) = nat ?w"
    using generate_noise_map_shape [OF assms] by blast
  obtain mo where mo: "generate_noise_map ?w ?h 3 3 = Inr mo" "length mo = nat ?h"
      "\<forall>i < nat ?h. length (mo ! i) = nat ?w"
    using generate_noise_map_shape [OF assms] by blast
  let ?cell = "\<lambda>y x. get_biome (el ! nat y ! nat x) (mo ! nat y ! nat x)"
  let ?bm = "map (\<lambda>y. map (?cell y) (py_range ?w)) (py_range ?h)"
  have cell: "bind_r (grid_get el x y) (\<lambda>elevation.
                 bind_r (grid_get mo x y) (\<lambda>moisture. Inr (get_biome elevation moisture)))
      = Inr (?cell y x)"
    if "x \<in> set (py_range ?w)" "y \<in> set (py_range ?h)" for x y
  proof -
    have "0 \<le> x" "nat x < nat ?w" "0 \<le> y" "nat y < nat ?h"
      using that by (auto simp: set_py_range)
    then show ?thesis using el mo by (simp add: grid_get_Inr bind_r_def)
  qed
  have bm: "mapM_r (\<lambda>y. mapM_r (\<lambda>x.
                 bind_r (grid_get el x y) (\<lambda>elevation.
                 bind_r (grid_get mo x y) (\<lambda>moisture.
                   Inr (get_biome elevation moisture))))
               (py_range ?w)) (py_range ?h) = Inr ?bm"
    by (rule mapM_r_Inr, rule mapM_r_Inr, rule cell)
  have ne: "?bm \<noteq> []" using assms by (simp add: py_range_def)
  have "\<forall>row \<in> set ?bm. length row = length (hd ?bm)"
    using assms by (auto simp: length_py_range hd_map py_range_def)
  then obtain t where "translate_biomes ?bm = Inr t"
    using translate_biomes_Inr [OF ne] by blast
  then show ?thesis using el mo bm by (simp add: generate_def bind_r_def)
qed

lemma generate_nonpos:
  "bg_width gen \<le> 0 \<or> bg_height gen \<le> 0 \<Longrightarrow> generate gen = Inl ValueError"
  by (simp add: generate_def generate_noise_map_nonpos bind_r_def)

lemma foldl_min_le: "foldl min a vs \<le> (a::real) \<and> (\<forall>v \<in> set vs. foldl min a vs \<le> v)"
proof (induction vs arbitrary: a)
  case Nil
  then show ?case by simp
next
  case (Cons v vs)
  have "foldl min (min a v) vs \<le> min a v" using Cons.IH by blast
  then show ?case using Cons.IH [of "min a v"] by auto
qed

lemma foldl_max_ge: "(a::real) \<le> foldl max a vs \<and> (\<forall>v \<in> set vs. v \<le> foldl max a vs)"
proof (induction vs arbitrary: a)
  case Nil
  then show ?case by simp
next
  case (Cons v vs)
  have "max a v \<le> foldl max (max a v) vs" using Cons.IH by blast
  then show ?case using Cons.IH [of "max a v"] by auto
qed

lemma list_min_le: "v \<in> set vs \<Longrightarrow> list_min vs \<le> v"
  using foldl_min_le [of "hd vs" "tl vs"] by (cases vs) (auto simp: list_min_def)

lemma list_max_ge: "v \<in> set vs \<Longrightarrow> v \<le> list_max vs"
  using foldl_max_ge [of "hd vs" "tl vs"] by (cases vs) (auto simp: list_max_def)

text \<open>A flat field is normalised to \<open>NaN\<close> in every cell: each cell is \<open>0 / 0\<close>.\<close>

lemma normalize_flat:
  assumes "concat noise \<noteq> []" "list_max (concat noise) = list_min (concat noise)"
  shows "normalize noise = Inr (map (map (\<lambda>v. NaN)) noise)"
proof -
  have "v = list_min (concat noise)" if "v \<in> set (concat noise)" for v
    using list_min_le [OF that] list_max_ge [OF that] assms(2) by simp
  then have "np_div (v - list_min (concat noise))
        (list_max (concat noise) - list_min (concat noise)) = NaN"
    if "row \<in> set noise" "v \<in> set row" for row v
    using that assms(2) by (auto simp: np_div_def)
  then have "map (map (\<lambda>v. np_div (v - list_min (concat noise))
        (list_max (concat noise) - list_min (concat noise)))) noise
      = map (map (\<lambda>v. NaN)) noise"
    by (simp cong: map_cong)
  then show ?thesis using assms(1) by (simp add: normalize_def Let_def)
qed

lemma py_range_3: "py_range 3 = [0, 1, 2]"
  by code_simp

lemma py_range_2: "py_range 2 = [0, 1]"
  by code_simp

lemma py_range_0: "py_range 0 = []"
  by (simp add: py_range_def)

text \<open>
  Claim C3 (fails on the code). The claim asks for the value 0.5 in every cell of a flat
  field. \<open>_generate_noise_map\<close> has no branch for a flat field: with \<open>width = 1\<close> the only
  abscissa is 0, every accumulated cell is 0, the minimum equals the maximum, and each
  cell is normalised to \<open>0 / 0\<close>, which numpy evaluates to \<open>nan\<close>.
\<close>

theorem generate_noise_map_flat_is_nan:
  "generate_noise_map 1 1 4 4 = Inr [[NaN]]
   \<and> generate_noise_map 1 3 4 4 = Inr [[NaN], [NaN], [NaN]]
   \<and> NaN \<noteq> Fin (1 / 2)"
  by (simp add: generate_noise_map_def accumulate_noise_def linspace_def bind_r_def
      normalize_def noise_cell_def list_min_def list_max_def np_div_def py_range_3)

text \<open>
  Claim C4 (fails on the code as stated). With \<open>width = 0\<close> the constructor returns a
  generator, the noise stage builds its grid of two empty rows, and only the minimum
  over that empty grid raises, numpy's \<open>ValueError\<close>.
\<close>

theorem invalid_dimensions_counterexample:
  "BiomeGenerator_init list_prng [] 0 2 (Some 42)
     = Inr (\<lparr> bg_width = 0, bg_height = 2, bg_seed = 42 \<rparr>, [0, 9 / 10])
   \<and> accumulate_noise 0 2 4 4 = Inr [[], []]
   \<and> generate \<lparr> bg_width = 0, bg_height = 2, bg_seed = 42 \<rparr> = Inl ValueError"
  by (simp add: BiomeGenerator_init_def list_prng_def np_random_seed_def bind_r_def
      accumulate_noise_def linspace_def py_range_2 py_range_0 generate_nonpos)

text \<open>
  Claim C4, amended. The constructor checks no dimension: for every width and height
  (and a seed that numpy accepts) it returns a generator holding them. With
  \<open>width \<le> 0\<close> or \<open>height \<le> 0\<close>, \<open>generate\<close> then fails with the \<open>ValueError\<close> of the
  numeric library; when both are non-negative the unnormalised noise grid has been built
  by then. With \<open>width > 0\<close> and \<open>height > 0\<close>, \<open>generate\<close> raises nothing.
\<close>

theorem dimensions_unchecked:
  assumes "0 \<le> s" "s < 2 ^ 32"
  shows "BiomeGenerator_init P g width height (Some s)
           = Inr (\<lparr> bg_width = width, bg_height = height, bg_seed = s \<rparr>, seed_rng P s)
       \<and> ((width \<le> 0 \<or> height \<le> 0) \<longrightarrow>
            generate \<lparr> bg_width = width, bg_height = height, bg_seed = s \<rparr> = Inl ValueError)
       \<and> ((0 \<le> width \<and> 0 \<le> height) \<longrightarrow>
            (\<exists>noise. accumulate_noise width height 4 4 = Inr noise \<and> length noise = nat height))
       \<and> ((0 < width \<and> 0 < height) \<longrightarrow>
            (\<exists>biome_map terrain_map.
               generate \<lparr> bg_width = width, bg_height = height, bg_seed = s \<rparr>
                 = Inr (biome_map, terrain_map)))"
proof -
  let ?gen = "\<lparr> bg_width = width, bg_height = height, bg_seed = s \<rparr>"
  have a: "BiomeGenerator_init P g width height (Some s) = Inr (?gen, seed_rng P s)"
    using assms by (simp add: BiomeGenerator_init_def np_random_seed_def bind_r_def)
  have b: "(width \<le> 0 \<or> height \<le> 0) \<longrightarrow> generate ?gen = Inl ValueError"
    using generate_nonpos [of ?gen] by simp
  have c: "(0 \<le> width \<and> 0 \<le> height) \<longrightarrow>
      (\<exists>noise. accumulate_noise width height 4 4 = Inr noise \<and> length noise = nat height)"
    using accumulate_noise_shape [of width height 4 4] by blast
  have d: "(0 < width \<and> 0 < height) \<longrightarrow>
      (\<exists>biome_map terrain_map. generate ?gen = Inr (biome_map, terrain_map))"
    using generate_Inr [of ?gen] by simp
  show ?thesis using a b c d by blast
qed

theorem dimensions_unchecked_witness:
  "(0::int) \<le> 42 \<and> (42::int) < 2 ^ 32
   \<and> BiomeGenerator_init list_prng [] 0 2 (Some 42)
       = Inr (\<lparr> bg_width = 0, bg_height = 2, bg_seed = 42 \<rparr>, [0, 9 / 10])
   \<and> generate \<lparr> bg_width = 0, bg_height = 2, bg_seed = 42 \<rparr> = Inl ValueError
   \<and> (\<exists>noise. accumulate_noise 0 2 4 4 = Inr noise \<and> length noise = nat 2)
   \<and> (\<exists>biome_map terrain_map.
        generate \<lparr> bg_width = 1, bg_height = 1, bg_seed = 42 \<rparr> = Inr (biome_map, terrain_map))"
  using dimensions_unchecked [of 42 list_prng "[]" 0 2]
    dimensions_unchecked [of 42 list_prng "[]" 1 1]
  by (simp add: list_prng_def)

section \<open>Properties of seed selection\<close>

lemma manhattan_distance_commute:
  "manhattan_distance x1 y1 x2 y2 = manhattan_distance x2 y2 x1 y1"
  by (simp add: manhattan_distance_def abs_minus_commute)

lemma separated_snoc:
  assumes "separated d seeds"
    and "\<forall>s \<in> set seeds. d \<le> manhattan_distance (fst s) (snd s) x y"
  shows "separated d (seeds @ [(x, y)])"
  unfolding separated_def
proof (intro allI impI)
  fix j i
  assume j: "j < length (seeds @ [(x, y)])" and i: "i < j"
  show "d \<le> manhattan_distance (fst ((seeds @ [(x, y)]) ! i)) (snd ((seeds @ [(x, y)]) ! i))
              (fst ((seeds @ [(x, y)]) ! j)) (snd ((seeds @ [(x, y)]) ! j))"
  proof (cases "j < length seeds")
    case True
    then show ?thesis using assms(1) i by (simp add: separated_def nth_append)
  next
    case False
    then have "j = length seeds" using j by simp
    moreover have "seeds ! i \<in> set seeds" using i \<open>j = length seeds\<close> by simp
    ultimately show ?thesis using assms(2) i by (simp add: nth_append)
  qed
qed

lemma pick_position_mem:
  "pick_position r cw ps = Some (x, y) \<Longrightarrow> \<exists>w. (x, y, w) \<in> set ps"
  by (induction r cw ps rule: pick_position.induct) (auto split: if_splits)

lemma seed_attempt_separated:
  assumes "separated d seeds"
  shows "separated d (fst (seed_attempt d r (seeds, valid)))"
proof (cases "pick_position r 0 valid")
  case None
  then show ?thesis using assms by (simp add: seed_attempt_def)
next
  case (Some p)
  obtain x y where p: "p = (x, y)" by (cases p)
  show ?thesis
  proof (cases "list_ex (\<lambda>(sx, sy). manhattan_distance x y sx sy < d) seeds")
    case True
    then show ?thesis using assms Some p by (simp add: seed_attempt_def)
  next
    case False
    then have "\<forall>s \<in> set seeds. d \<le> manhattan_distance (fst s) (snd s) x y"
      by (auto simp: list_ex_iff manhattan_distance_commute [of _ _ x y])
    then have "separated d (seeds @ [(x, y)])" using assms by (rule separated_snoc [rotated])
    then show ?thesis using False Some p by (simp add: seed_attempt_def)
  qed
qed

lemma seed_attempt_length:
  "length (fst (seed_attempt d r (seeds, valid))) = length seeds
   \<or> length (fst (seed_attempt d r (seeds, valid))) = Suc (length seeds)"
  by (auto simp: seed_attempt_def split: option.splits)

lemma seed_loop_separated:
  "separated d seeds \<Longrightarrow> separated d (fst (seed_loop P n m d seeds valid attempts g))"
proof (induction P n m d seeds valid attempts g rule: seed_loop.induct)
  case (1 P n m d seeds valid attempts g)
  show ?case
  proof (cases "int (length seeds) < n \<and> attempts < m")
    case False
    then show ?thesis using "1.prems" by (subst seed_loop.simps) auto
  next
    case True
    obtain r g' where rg: "random_uniform P g 0 (sum_list (map (\<lambda>(x, y, w). w) valid)) = (r, g')"
      by (cases "random_uniform P g 0 (sum_list (map (\<lambda>(x, y, w). w) valid))")
    obtain s' v' where sv: "seed_attempt d r (seeds, valid) = (s', v')"
      by (cases "seed_attempt d r (seeds, valid)")
    have "separated d s'" using seed_attempt_separated [OF "1.prems", of r valid] sv by simp
    then have "separated d (fst (seed_loop P n m d s' v' (attempts + 1) g'))"
      using "1.IH" [OF True rg [symmetric] sv [symmetric]] by simp
    then show ?thesis using True rg sv by (subst seed_loop.simps) simp
  qed
qed

lemma seed_loop_bounds:
  assumes "attempts \<le> m" "int (length seeds) \<le> n"
  shows "(case seed_loop P n m d seeds valid attempts g of
           (seeds', attempts', g') \<Rightarrow>
             attempts \<le> attempts' \<and> attempts' \<le> m \<and> int (length seeds') \<le> n
             \<and> (int (length seeds') = n \<or> attempts' = m))"
  using assms
proof (induction P n m d seeds valid attempts g rule: seed_loop.induct)
  case (1 P n m d seeds valid attempts g)
  show ?case
  proof (cases "int (length seeds) < n \<and> attempts < m")
    case False
    then show ?thesis using "1.prems" by (subst seed_loop.simps) auto
  next
    case True
    obtain r g' where rg: "random_uniform P g 0 (sum_list (map (\<lambda>(x, y, w). w) valid)) = (r, g')"
      by (cases "random_uniform P g 0 (sum_list (map (\<lambda>(x, y, w). w) valid))")
    obtain s' v' where sv: "seed_attempt d r (seeds, valid) = (s', v')"
      by (cases "seed_attempt d r (seeds, valid)")
    have len: "int (length s') \<le> n" using seed_attempt_length [of d r seeds valid] sv True by auto
    have att: "attempts + 1 \<le> m" using True by simp
    have "case seed_loop P n m d s' v' (attempts + 1) g' of
           (seeds', attempts', g') \<Rightarrow>
             attempts + 1 \<le> attempts' \<and> attempts' \<le> m \<and> int (length seeds') \<le> n
             \<and> (int (length seeds') = n \<or> attempts' = m)"
      using "1.IH" [OF True rg [symmetric] sv [symmetric] att len] .
    then show ?thesis using True rg sv by (subst seed_loop.simps) (auto split: prod.splits)
  qed
qed

lemma seed_loop_stops:
  "num_regions \<le> int (length seeds) \<Longrightarrow>
   seed_loop P num_regions m d seeds valid attempts g = (seeds, attempts, g)"
  by (subst seed_loop.simps) simp

lemma covers_grid_get:
  assumes "covers m width height" "0 \<le> x" "x < width" "0 \<le> y" "y < height"
  shows "grid_get m x y = Inr (m ! nat y ! nat x)"
proof -
  have y: "nat y < nat height" "nat height \<le> length m" using assms by (auto simp: covers_def)
  then have "take (nat height) m ! nat y = m ! nat y" by simp
  moreover have "take (nat height) m ! nat y \<in> set (take (nat height) m)"
    by (rule nth_mem) (use y in simp)
  ultimately have "nat width \<le> length (m ! nat y)"
    using assms(1) by (auto simp: covers_def list_all_iff)
  moreover have "nat x < nat width" using assms(2,3) by simp
  ultimately have "nat x < length (m ! nat y)" by linarith
  moreover have "nat y < length m" using y by linarith
  ultimately show ?thesis using assms(2,4) by (simp add: grid_get_def)
qed

lemma set_grid_cells:
  "set (grid_cells width height) = {(x, y). 0 \<le> x \<and> x < width \<and> 0 \<le> y \<and> y < height}"
  by (auto simp: grid_cells_def set_py_range)

lemma all_positions_Inr:
  assumes "covers biome_map width height"
  shows "all_positions width height biome_map
    = Inr (map (\<lambda>(x, y). (x, y, get_biome_weight (biome_map ! nat y ! nat x)))
        (grid_cells width height))"
  unfolding all_positions_def
proof (rule mapM_r_Inr)
  fix c assume c: "c \<in> set (grid_cells width height)"
  obtain x y where xy: "c = (x, y)" by (cases c)
  then have "grid_get biome_map x y = Inr (biome_map ! nat y ! nat x)"
    using c covers_grid_get [OF assms, of x y] by (simp add: set_grid_cells)
  then show "(case c of (x, y) \<Rightarrow> bind_r (grid_get biome_map x y)
        (\<lambda>biome. Inr (x, y, get_biome_weight biome)))
      = Inr (case c of (x, y) \<Rightarrow> (x, y, get_biome_weight (biome_map ! nat y ! nat x)))"
    using xy by (simp add: bind_r_def)
qed

lemma min_distance_of_Inr:
  assumes "1 \<le> num_regions" "0 \<le> width * height"
  shows "min_distance_of width height num_regions
    = Inr \<lfloor>sqrt (real_of_int (width * height) / real_of_int (num_regions * 2))\<rfloor>"
proof -
  have "0 \<le> real_of_int (width * height)"
    using assms(2) by (simp only: of_int_0_le_iff)
  moreover have "0 \<le> real_of_int (num_regions * 2)"
    using assms(1) by simp
  ultimately have "0 \<le> real_of_int (width * height) / real_of_int (num_regions * 2)"
    by (rule divide_nonneg_nonneg)
  then show ?thesis using assms by (simp add: min_distance_of_def)
qed

lemma min_distance_of_value:
  "min_distance_of width height num_regions = Inr d \<Longrightarrow>
   d = \<lfloor>sqrt (real_of_int (width * height) / real_of_int (num_regions * 2))\<rfloor>"
  by (auto simp: min_distance_of_def split: if_splits)

lemma separated_Nil: "separated d []"
  by (simp add: separated_def)

text \<open>
  Claim C7. Every seed is accepted only at distance at least \<open>min_distance\<close> from the
  seeds accepted before it (one attempt keeps the list separated), so the list that
  \<open>_generate_seed_points\<close> returns is separated by
  \<open>d = floor(sqrt((W * H) / (numRegions * 2)))\<close>.
\<close>

theorem seeds_min_separation:
  "(separated d seeds \<longrightarrow> separated d (fst (seed_attempt d r (seeds, valid_positions))))
   \<and> (generate_seed_points P g width height num_regions biome_map = Inr (result, g') \<longrightarrow>
        separated \<lfloor>sqrt (real_of_int (width * height) / real_of_int (num_regions * 2))\<rfloor> result)"
proof -
  have "separated \<lfloor>sqrt (real_of_int (width * height) / real_of_int (num_regions * 2))\<rfloor> result"
    if run: "generate_seed_points P g width height num_regions biome_map = Inr (result, g')"
  proof -
    obtain dd where dd: "min_distance_of width height num_regions = Inr dd"
      using run by (cases "min_distance_of width height num_regions")
        (auto simp: generate_seed_points_def seed_points_run_def bind_r_def)
    obtain ps where ps: "all_positions width height biome_map = Inr ps"
      using run dd by (cases "all_positions width height biome_map")
        (auto simp: generate_seed_points_def seed_points_run_def bind_r_def)
    have "result = fst (seed_loop P num_regions (num_regions * 100) dd []
        (sort_key (\<lambda>(x, y, w). - w) ps) 0 g)"
      using run dd ps
      by (auto simp: generate_seed_points_def seed_points_run_def bind_r_def split: prod.splits)
    then have "separated dd result"
      using seed_loop_separated [OF separated_Nil] by simp
    then show ?thesis using min_distance_of_value [OF dd] by simp
  qed
  then show ?thesis using seed_attempt_separated by blast
qed
lemma grid_cells_4_1: "grid_cells 4 1 = [(0, 0), (1, 0), (2, 0), (3, 0)]"
  by code_simp

lemma grid_cells_0_0: "grid_cells 0 0 = []"
  by code_simp

lemma seed_loop_demo:
  "seed_loop list_prng 2 200 1 [] [(0, 0, 1), (1, 0, 1), (2, 0, 1), (3, 0, 1)] 0 [0, 9 / 10]
     = ([(0, 0), (3, 0)], 2, [])"
  by code_simp

lemma seed_loop_demo_empty: "seed_loop list_prng 1 100 0 [] [] 0 [] = ([], 100, [])"
  by code_simp

lemma seed_points_run_demo:
  "seed_points_run list_prng [0, 9 / 10] 4 1 2
       [[''grassland'', ''grassland'', ''grassland'', ''grassland'']]
     = Inr ([(0, 0), (3, 0)], 2, [])"
  by (simp add: seed_points_run_def min_distance_of_def all_positions_def grid_cells_4_1
      grid_get_def bind_r_def get_biome_weight_def biome_weights_def seed_loop_demo)

lemma seed_points_run_demo_empty:
  "seed_points_run list_prng [] 0 0 1 [] = Inr ([], 100, [])"
  by (simp add: seed_points_run_def min_distance_of_def all_positions_def grid_cells_0_0
      bind_r_def seed_loop_demo_empty)

theorem seeds_min_separation_witness:
  "separated 1 [(0, 0)] \<and> separated 1 (fst (seed_attempt 1 (1 / 2) ([(0, 0)], [(3, 0, 1)])))
   \<and> fst (seed_attempt 1 (1 / 2) ([(0, 0)], [(3, 0, 1)])) = [(0, 0), (3, 0)]
   \<and> generate_seed_points list_prng [0, 9 / 10] 4 1 2
        [[''grassland'', ''grassland'', ''grassland'', ''grassland'']]
       = Inr ([(0, 0), (3, 0)], [])
   \<and> separated \<lfloor>sqrt (real_of_int (4 * 1) / real_of_int (2 * 2))\<rfloor> [(0, 0), (3, 0)]
   \<and> \<lfloor>sqrt (real_of_int (4 * 1) / real_of_int (2 * 2))\<rfloor> = (1::int)
   \<and> manhattan_distance 0 0 3 0 = 3"
proof -
  have run: "generate_seed_points list_prng [0, 9 / 10] 4 1 2
        [[''grassland'', ''grassland'', ''grassland'', ''grassland'']]
       = Inr ([(0, 0), (3, 0)], [])"
    by (simp add: generate_seed_points_def seed_points_run_demo bind_r_def)
  have sep: "separated 1 [(0, 0)]" by (simp add: separated_def)
  have att: "fst (seed_attempt 1 (1 / 2) ([(0, 0)], [(3, 0, 1)])) = [(0, 0), (3, 0)]"
    by (simp add: seed_attempt_def manhattan_distance_def)
  show ?thesis
    using seeds_min_separation [of 1 "[(0, 0)]" "1 / 2" "[(3, 0, 1)]" list_prng "[0, 9 / 10]" 4 1 2
        "[[''grassland'', ''grassland'', ''grassland'', ''grassland'']]" "[(0, 0), (3, 0)]" "[]"]
      run sep att
    by (simp add: manhattan_distance_def)
qed

text \<open>
  Claim C9. The seed-selection loop makes at most \<open>numRegions * 100\<close> attempts, ends
  with \<open>numRegions\<close> seeds or with the attempts used up, makes no further attempt once
  \<open>numRegions\<close> seeds are placed, and \<open>_generate_seed_points\<close> returns the seeds it has
  (never more than \<open>numRegions\<close>) without raising, on every grid that has a biome for
  each cell of \<open>range(width) \<times> range(height)\<close>.
\<close>

theorem seed_selection_terminates:
  assumes "1 \<le> num_regions"
  shows "(case seed_loop P num_regions (num_regions * 100) d [] valid_positions 0 g of
            (seeds, attempts, g') \<Rightarrow>
              0 \<le> attempts \<and> attempts \<le> num_regions * 100 \<and> int (length seeds) \<le> num_regions
              \<and> (int (length seeds) = num_regions \<or> attempts = num_regions * 100))
       \<and> (num_regions \<le> int (length s) \<longrightarrow>
            seed_loop P num_regions m d s v a g0 = (s, a, g0))
       \<and> (0 \<le> width \<and> 0 \<le> height \<and> covers biome_map width height \<longrightarrow>
            (\<exists>seeds attempts g'.
               seed_points_run P g width height num_regions biome_map = Inr (seeds, attempts, g')
               \<and> generate_seed_points P g width height num_regions biome_map = Inr (seeds, g')
               \<and> attempts \<le> num_regions * 100 \<and> int (length seeds) \<le> num_regions
               \<and> (int (length seeds) = num_regions \<or> attempts = num_regions * 100)))"
proof -
  have loop: "case seed_loop P num_regions (num_regions * 100) dd [] vs 0 g of
            (seeds, attempts, g') \<Rightarrow>
              0 \<le> attempts \<and> attempts \<le> num_regions * 100 \<and> int (length seeds) \<le> num_regions
              \<and> (int (length seeds) = num_regions \<or> attempts = num_regions * 100)" for dd vs
    using seed_loop_bounds [of 0 "num_regions * 100" "[]" num_regions P dd vs g] assms
    by simp
  have stop: "num_regions \<le> int (length s) \<longrightarrow>
      seed_loop P num_regions m d s v a g0 = (s, a, g0)"
    by (simp add: seed_loop_stops)
  have run: "\<exists>seeds attempts g'.
               seed_points_run P g width height num_regions biome_map = Inr (seeds, attempts, g')
               \<and> generate_seed_points P g width height num_regions biome_map = Inr (seeds, g')
               \<and> attempts \<le> num_regions * 100 \<and> int (length seeds) \<le> num_regions
               \<and> (int (length seeds) = num_regions \<or> attempts = num_regions * 100)"
    if wf: "0 \<le> width" "0 \<le> height" "covers biome_map width height"
  proof -
    let ?d = "\<lfloor>sqrt (real_of_int (width * height) / real_of_int (num_regions * 2))\<rfloor>"
    let ?ps = "map (\<lambda>(x, y). (x, y, get_biome_weight (biome_map ! nat y ! nat x)))
        (grid_cells width height)"
    let ?res = "seed_loop P num_regions (num_regions * 100) ?d []
        (sort_key (\<lambda>(x, y, w). - w) ?ps) 0 g"
    have md: "min_distance_of width height num_regions = Inr ?d"
      using min_distance_of_Inr [OF assms] wf by simp
    have r: "seed_points_run P g width height num_regions biome_map = Inr ?res"
      using md all_positions_Inr [OF wf(3)] by (simp add: seed_points_run_def bind_r_def)
    obtain seeds attempts g' where res: "?res = (seeds, attempts, g')" by (cases ?res)
    have "generate_seed_points P g width height num_regions biome_map = Inr (seeds, g')"
      using r res by (simp add: generate_seed_points_def bind_r_def)
    then show ?thesis using r res loop [of ?d "sort_key (\<lambda>(x, y, w). - w) ?ps"] by simp
  qed
  show ?thesis using loop [of d valid_positions] stop run by blast
qed

theorem seed_selection_terminates_witness:
  "(1::int) \<le> 2
   \<and> seed_loop list_prng 2 (2 * 100) 1 [] [(0, 0, 1), (1, 0, 1), (2, 0, 1), (3, 0, 1)] 0
        [0, 9 / 10] = ([(0, 0), (3, 0)], 2, [])
   \<and> (2::int) \<le> int (length [(0, 0), (3, 0)])
   \<and> seed_loop list_prng 2 7 1 [(0, 0), (3, 0)] [] 2 [] = ([(0, 0), (3, 0)], 2, [])
   \<and> (0::int) \<le> 4 \<and> (0::int) \<le> 1
   \<and> covers [[''grassland'', ''grassland'', ''grassland'', ''grassland'']] 4 1
   \<and> seed_points_run list_prng [0, 9 / 10] 4 1 2
        [[''grassland'', ''grassland'', ''grassland'', ''grassland'']]
       = Inr ([(0, 0), (3, 0)], 2, [])
   \<and> (1::int) \<le> 1 \<and> covers ([] :: string list list) 0 0
   \<and> seed_points_run list_prng [] 0 0 1 [] = Inr ([], 100, [])
   \<and> generate_seed_points list_prng [] 0 0 1 [] = Inr ([], [])"
proof -
  have c1: "covers [[''grassland'', ''grassland'', ''grassland'', ''grassland'']] 4 1"
    by (simp add: covers_def)
  have c2: "covers ([] :: string list list) 0 0" by (simp add: covers_def)
  have e: "seed_loop list_prng 2 (2 * 100) 1 [] [(0, 0, 1), (1, 0, 1), (2, 0, 1), (3, 0, 1)] 0
        [0, 9 / 10] = ([(0, 0), (3, 0)], 2, [])"
    using seed_loop_demo by simp
  show ?thesis
    using seed_selection_terminates [of 2 list_prng 1 "[(0, 0, 1), (1, 0, 1), (2, 0, 1), (3, 0, 1)]"
        "[0, 9 / 10]" "[(0, 0), (3, 0)]" 7 "[]" 2 "[]" 4 1
        "[[''grassland'', ''grassland'', ''grassland'', ''grassland'']]"]
      seed_selection_terminates [of 1 list_prng 0 "[]" "[]" "[]" 0 "[]" 0 "[]" 0 0 "[]"]
      c1 c2 e seed_points_run_demo seed_points_run_demo_empty
    by (simp add: generate_seed_points_def bind_r_def)
qed

section \<open>Properties of the assignment\<close>

lemma nearest_loop_inv:
  fixes x y :: int and seeds :: "(int \<times> int) list"
  defines "D \<equiv> \<lambda>j. manhattan_distance x y (fst (seeds ! j)) (snd (seeds ! j))"
  assumes "seeds = pre @ ss" "i = int (length pre)" "seeds \<noteq> []"
    and "case md of
           None \<Rightarrow> pre = []
         | Some m \<Rightarrow> \<exists>k < length pre. nr = int k \<and> m = D k
                       \<and> (\<forall>j < length pre. m \<le> D j) \<and> (\<forall>j < k. m < D j)"
  shows "\<exists>k < length seeds. nearest_loop x y ss i md nr = int k
           \<and> (\<forall>j < length seeds. D k \<le> D j) \<and> (\<forall>j < k. D k < D j)"
  using assms(2-)
proof (induction ss arbitrary: pre i md nr)
  case Nil
  then have "pre \<noteq> []" by simp
  then obtain m where m: "md = Some m" using Nil.prems(4) by (cases md) auto
  then show ?case using Nil.prems by auto
next
  case (Cons s rest)
  obtain sx sy where s: "s = (sx, sy)" by (cases s)
  let ?n = "length pre"
  have sn: "seeds ! ?n = (sx, sy)" using Cons.prems(1) s by simp
  then have dn: "D ?n = manhattan_distance x y sx sy" by (simp add: D_def)
  have split: "seeds = (pre @ [s]) @ rest" using Cons.prems(1) by simp
  have i': "i + 1 = int (length (pre @ [s]))" using Cons.prems(2) by simp
  show ?case
  proof (cases "case md of None \<Rightarrow> True | Some m \<Rightarrow> manhattan_distance x y sx sy < m")
    case True
    have inv: "case Some (manhattan_distance x y sx sy) of
           None \<Rightarrow> pre @ [s] = []
         | Some m \<Rightarrow> \<exists>k < length (pre @ [s]). i = int k \<and> m = D k
                       \<and> (\<forall>j < length (pre @ [s]). m \<le> D j) \<and> (\<forall>j < k. m < D j)"
    proof (cases md)
      case None
      then have "pre = []" using Cons.prems(4) by simp
      then show ?thesis using dn Cons.prems(2) by simp
    next
      case (Some m)
      then have lt: "D ?n < m" using True dn by simp
      obtain k where k: "k < ?n" "\<forall>j < ?n. m \<le> D j"
        using Cons.prems(4) Some by auto
      have "\<forall>j < Suc ?n. D ?n \<le> D j"
        using k(2) lt by (auto simp: less_Suc_eq)
      moreover have "\<forall>j < ?n. D ?n < D j" using k(2) lt by fastforce
      ultimately show ?thesis using dn Cons.prems(2)
        by (auto intro!: exI [of _ ?n])
    qed
    have "nearest_loop x y (s # rest) i md nr
        = nearest_loop x y rest (i + 1) (Some (manhattan_distance x y sx sy)) i"
      using True s by simp
    then show ?thesis
      using Cons.IH [OF split i' Cons.prems(3) inv] by simp
  next
    case False
    then obtain m where m: "md = Some m" "m \<le> D ?n" using dn by (cases md) auto
    obtain k where k: "k < ?n" "nr = int k" "m = D k" "\<forall>j < ?n. m \<le> D j" "\<forall>j < k. m < D j"
      using Cons.prems(4) m(1) by auto
    have "\<forall>j < Suc ?n. m \<le> D j" using k(4) m(2) by (auto simp: less_Suc_eq)
    then have inv: "case md of
           None \<Rightarrow> pre @ [s] = []
         | Some m \<Rightarrow> \<exists>k < length (pre @ [s]). nr = int k \<and> m = D k
                       \<and> (\<forall>j < length (pre @ [s]). m \<le> D j) \<and> (\<forall>j < k. m < D j)"
      using m(1) k by (auto intro!: exI [of _ k])
    have "nearest_loop x y (s # rest) i md nr = nearest_loop x y rest (i + 1) md nr"
      using False s by simp
    then show ?thesis
      using Cons.IH [OF split i' Cons.prems(3) inv] by simp
  qed
qed

lemma nearest_region_spec:
  assumes "seeds \<noteq> []"
  shows "\<exists>k < length seeds. nearest_region seeds x y = int k
    \<and> (\<forall>j < length seeds.
         manhattan_distance x y (fst (seeds ! k)) (snd (seeds ! k))
           \<le> manhattan_distance x y (fst (seeds ! j)) (snd (seeds ! j)))
    \<and> (\<forall>j < k.
         manhattan_distance x y (fst (seeds ! k)) (snd (seeds ! k))
           < manhattan_distance x y (fst (seeds ! j)) (snd (seeds ! j)))"
  unfolding nearest_region_def
  using nearest_loop_inv [where seeds = seeds and pre = "[]" and ss = seeds and i = 0
      and md = None and nr = "-1" and x = x and y = y] assms
  by simp
lemma foldM_r_inv:
  assumes "foldM_r f s xs = Inr s'" and "I seen s" and "distinct (seen @ xs)"
    and "set xs \<subseteq> A"
    and step: "\<And>seen s x s1. I seen s \<Longrightarrow> x \<in> A \<Longrightarrow> x \<notin> set seen \<Longrightarrow> f s x = Inr s1
                 \<Longrightarrow> I (seen @ [x]) s1"
  shows "I (seen @ xs) s'"
  using assms(1-4)
proof (induction xs arbitrary: seen s)
  case Nil
  then show ?case by simp
next
  case (Cons x xs)
  obtain s1 where s1: "f s x = Inr s1" "foldM_r f s1 xs = Inr s'"
    using Cons.prems(1) by (cases "f s x") auto
  have "I (seen @ [x]) s1"
    using step [OF Cons.prems(2) _ _ s1(1)] Cons.prems(3,4) by simp
  moreover have "distinct ((seen @ [x]) @ xs)" using Cons.prems(3) by simp
  moreover have "set xs \<subseteq> A" using Cons.prems(4) by simp
  ultimately have "I ((seen @ [x]) @ xs) s'" using Cons.IH [OF s1(2)] by blast
  then show ?case by simp
qed

lemma distinct_py_range: "distinct (py_range n)"
  by (simp add: py_range_def distinct_map inj_on_def)

lemma distinct_cells_aux:
  "distinct xs \<Longrightarrow> distinct ys \<Longrightarrow> distinct (concat (map (\<lambda>y. map (\<lambda>x. (x, y)) xs) ys))"
  by (induction ys) (auto simp: distinct_map inj_on_def)

lemma distinct_grid_cells: "distinct (grid_cells width height)"
  unfolding grid_cells_def by (rule distinct_cells_aux) (rule distinct_py_range)+

lemma grid_inv_step:
  assumes "grid_inv seeds width height done (fst st)"
    and "c \<in> {(x, y). 0 \<le> x \<and> x < width \<and> 0 \<le> y \<and> y < height}" "c \<notin> set done"
    and "assign_tile seeds biome_map st c = Inr st1"
  shows "grid_inv seeds width height (done @ [c]) (fst st1)"
proof -
  obtain x y where c: "c = (x, y)" by (cases c)
  obtain rm rd where st: "st = (rm, rd)" by (cases st)
  have xy: "0 \<le> x" "x < width" "0 \<le> y" "y < height" using assms(2) c by auto
  then have n: "nat x < nat width" "nat y < nat height" by auto
  have rm: "length rm = nat height" "\<forall>i < nat height. length (rm ! i) = nat width"
    "\<forall>c \<in> set done. 0 \<le> fst c \<and> 0 \<le> snd c
       \<and> rm ! nat (snd c) ! nat (fst c) = nearest_region seeds (fst c) (snd c)"
    using assms(1) st by (auto simp: grid_inv_def)
  have st1: "fst st1 = grid_set rm x y (nearest_region seeds x y)"
    using assms(4) c st
    by (cases "grid_get biome_map x y") (auto simp: assign_tile_def bind_r_def Let_def)
  let ?rm' = "grid_set rm x y (nearest_region seeds x y)"
  have len: "length ?rm' = nat height" using rm(1) by (simp add: grid_set_def)
  have rows: "\<forall>i < nat height. length (?rm' ! i) = nat width"
    using rm(1,2) n by (auto simp: grid_set_def nth_list_update)
  have new: "?rm' ! nat y ! nat x = nearest_region seeds x y"
    using rm(1,2) n by (simp add: grid_set_def)
  have old: "?rm' ! nat (snd d) ! nat (fst d) = nearest_region seeds (fst d) (snd d)"
    if d1: "d \<in> set done" for d
  proof -
    have d: "d \<in> set done" "0 \<le> fst d" "0 \<le> snd d" using d1 rm(3) by auto
    have "d \<noteq> (x, y)" using d(1) assms(3) c by auto
    then have "nat (snd d) \<noteq> nat y \<or> nat (fst d) \<noteq> nat x"
      using d(2,3) xy by (cases d) auto
    then have "?rm' ! nat (snd d) ! nat (fst d) = rm ! nat (snd d) ! nat (fst d)"
      using rm(1) n by (cases "nat (snd d) = nat y") (auto simp: grid_set_def)
    then show ?thesis using rm(3) d(1) by simp
  qed
  show ?thesis
    unfolding grid_inv_def st1
    using len rows new old rm(3) xy c by auto
qed

lemma grid_inv_init:
  "grid_inv seeds width height [] (replicate (nat height) (replicate (nat width) (-1)))"
  by (simp add: grid_inv_def)

lemma assign_tiles_grid:
  assumes "assign_tiles_to_regions width height seeds biome_map = Inr (region_map, region_data)"
  shows "grid_inv seeds width height (grid_cells width height) region_map"
proof -
  let ?init = "(replicate (nat height) (replicate (nat width) (-1)), init_region_data seeds)"
  obtain st where st: "foldM_r (assign_tile seeds biome_map) ?init (grid_cells width height) = Inr st"
    and rm: "region_map = fst st"
    using assms
    by (cases "foldM_r (assign_tile seeds biome_map) ?init (grid_cells width height)")
      (auto simp: assign_tiles_to_regions_def bind_r_def split: prod.splits)
  have "grid_inv seeds width height ([] @ grid_cells width height) (fst st)"
  proof (rule foldM_r_inv [where I = "\<lambda>done s. grid_inv seeds width height done (fst s)",
        OF st])
    show "grid_inv seeds width height [] (fst ?init)" by (simp add: grid_inv_init)
    show "distinct ([] @ grid_cells width height)" by (simp add: distinct_grid_cells)
    show "set (grid_cells width height) \<subseteq> {(x, y). 0 \<le> x \<and> x < width \<and> 0 \<le> y \<and> y < height}"
      by (simp add: set_grid_cells)
  qed (rule grid_inv_step)
  then show ?thesis using rm by simp
qed

text \<open>
  Claim C8. With at least one seed, the region map that \<open>_assign_tiles_to_regions\<close>
  returns holds at every cell \<open>(x, y)\<close> of the grid the index of a seed at minimal
  Manhattan distance from the cell, and every seed of a lower index is strictly farther.
\<close>

theorem assign_nearest_lowest_index:
  assumes "seeds \<noteq> []"
    and "assign_tiles_to_regions width height seeds biome_map = Inr (region_map, region_data)"
    and "0 \<le> x" "x < width" "0 \<le> y" "y < height"
  shows "\<exists>k < length seeds. region_map ! nat y ! nat x = int k
    \<and> (\<forall>j < length seeds.
         manhattan_distance x y (fst (seeds ! k)) (snd (seeds ! k))
           \<le> manhattan_distance x y (fst (seeds ! j)) (snd (seeds ! j)))
    \<and> (\<forall>j < k.
         manhattan_distance x y (fst (seeds ! k)) (snd (seeds ! k))
           < manhattan_distance x y (fst (seeds ! j)) (snd (seeds ! j)))"
proof -
  have "(x, y) \<in> set (grid_cells width height)"
    using assms(3-6) by (simp add: set_grid_cells)
  then have "region_map ! nat y ! nat x = nearest_region seeds x y"
    using assign_tiles_grid [OF assms(2)] by (auto simp: grid_inv_def)
  then show ?thesis using nearest_region_spec [OF assms(1), of x y] by simp
qed

lemma grid_cells_3_1: "grid_cells 3 1 = [(0, 0), (1, 0), (2, 0)]"
  by code_simp

lemma assign_demo_map:
  "map_sum id fst (assign_tiles_to_regions 3 1 [(0, 0), (2, 0)]
       [[''grassland'', ''grassland'', ''grassland'']]) = Inr [[0, 0, 1]]"
  by code_simp

lemma assign_demo:
  "\<exists>region_data. assign_tiles_to_regions 3 1 [(0, 0), (2, 0)]
       [[''grassland'', ''grassland'', ''grassland'']] = Inr ([[0, 0, 1]], region_data)"
  using assign_demo_map
  by (cases "assign_tiles_to_regions 3 1 [(0, 0), (2, 0)]
       [[''grassland'', ''grassland'', ''grassland'']]") auto

theorem assign_nearest_lowest_index_witness:
  "[(0, 0), (2, 0)] \<noteq> ([] :: (int \<times> int) list)
   \<and> (\<exists>region_data. assign_tiles_to_regions 3 1 [(0, 0), (2, 0)]
         [[''grassland'', ''grassland'', ''grassland'']] = Inr ([[0, 0, 1]], region_data))
   \<and> (0::int) \<le> 1 \<and> (1::int) < 3 \<and> (0::int) \<le> 0 \<and> (0::int) < 1
   \<and> [[0, 0, 1]] ! nat 0 ! nat 1 = (0::int)
   \<and> manhattan_distance 1 0 0 0 = 1 \<and> manhattan_distance 1 0 2 0 = 1"
proof -
  obtain region_data where a: "assign_tiles_to_regions 3 1 [(0, 0), (2, 0)]
       [[''grassland'', ''grassland'', ''grassland'']] = Inr ([[0, 0, 1]], region_data)"
    using assign_demo by blast
  have "\<exists>k < length [(0::int, 0::int), (2, 0)]. [[0, 0, 1]] ! nat 0 ! nat 1 = int k"
    using assign_nearest_lowest_index [OF _ a, of 1 0] by simp
  then show ?thesis using assign_demo by (simp add: manhattan_distance_def)
qed

section \<open>Properties of the region records and of the whole run\<close>

lemma init_region_data_aux:
  assumes "foldl (\<lambda>region_data (i, (x, y)).
         region_data(i \<mapsto> \<lparr> region_id = i, seed = (x, y), area = 0, tiles = [],
           biome_counts = [], dominant_biome = None, centroid = (x, y) \<rparr>)) m ps k = Some r"
  shows "m k = Some r \<or> (area r = 0 \<and> tiles r = [] \<and> biome_counts r = []
           \<and> dominant_biome r = None \<and> centroid r = seed r)"
  using assms
proof (induction ps arbitrary: m)
  case Nil
  then show ?case by simp
next
  case (Cons p ps)
  obtain i x y where p: "p = (i, (x, y))" by (cases p) auto
  let ?m = "m(i \<mapsto> \<lparr> region_id = i, seed = (x, y), area = 0, tiles = [],
           biome_counts = [], dominant_biome = None, centroid = (x, y) \<rparr>)"
  have "?m k = Some r \<or> (area r = 0 \<and> tiles r = [] \<and> biome_counts r = []
           \<and> dominant_biome r = None \<and> centroid r = seed r)"
    using Cons.IH [of ?m] Cons.prems p by simp
  then show ?case by (cases "k = i") auto
qed

lemma data_inv_init: "data_inv seeds biome_map [] (init_region_data seeds)"
proof -
  have "area r = 0 \<and> tiles r = [] \<and> biome_counts r = []
           \<and> dominant_biome r = None \<and> centroid r = seed r"
    if "init_region_data seeds k = Some r" for k r
    using init_region_data_aux [of Map.empty _ k r] that by (simp add: init_region_data_def)
  then show ?thesis
    by (auto simp: data_inv_def counter_of_def split: option.splits)
qed

lemma counter_of_snoc: "counter_of (xs @ [x]) = counter_incr x (counter_of xs)"
  by (simp add: counter_of_def)

lemma data_inv_step:
  assumes inv: "data_inv seeds biome_map seen (snd st)"
    and new: "c \<notin> set seen"
    and run: "assign_tile seeds biome_map st c = Inr st1"
  shows "data_inv seeds biome_map (seen @ [c]) (snd st1)"
proof -
  obtain x y where c: "c = (x, y)" by (cases c)
  obtain rm rd where st: "st = (rm, rd)" by (cases st)
  let ?n = "nearest_region seeds x y"
  let ?data = "case rd ?n of None \<Rightarrow> default_region | Some d \<Rightarrow> d"
  let ?b = "biome_map ! nat y ! nat x"
  let ?new = "?data\<lparr> area := area ?data + 1, tiles := set_add (x, y) (tiles ?data),
                         biome_counts := counter_incr ?b (biome_counts ?data) \<rparr>"
  have get: "grid_get biome_map x y = Inr ?b"
    using run c st
    by (cases "grid_get biome_map x y")
      (auto simp: assign_tile_def bind_r_def Let_def grid_get_def split: if_splits)
  have st1: "snd st1 = rd(?n \<mapsto> ?new)"
    using run c st get by (auto simp: assign_tile_def bind_r_def Let_def)
  have data: "tiles ?data = filter (\<lambda>(x, y). nearest_region seeds x y = ?n) seen
      \<and> area ?data = int (length (tiles ?data))
      \<and> biome_counts ?data = counter_of (map (\<lambda>(x, y). biome_map ! nat y ! nat x) (tiles ?data))
      \<and> dominant_biome ?data = None \<and> centroid ?data = seed ?data"
  proof (cases "rd ?n")
    case None
    then have "filter (\<lambda>(x, y). nearest_region seeds x y = ?n) seen = []"
      using inv st by (auto simp: data_inv_def dest: spec [of _ ?n])
    then show ?thesis using None by (simp add: default_region_def counter_of_def)
  next
    case (Some d)
    then show ?thesis using inv st by (auto simp: data_inv_def dest: spec [of _ ?n])
  qed
  have notin: "(x, y) \<notin> set (tiles ?data)" using data new c by auto
  have tiles_new: "tiles ?new = filter (\<lambda>(x, y). nearest_region seeds x y = ?n) (seen @ [c])"
    using data notin c by (simp add: set_add_def)
  have "case (rd(?n \<mapsto> ?new)) k of
        None \<Rightarrow> filter (\<lambda>(x, y). nearest_region seeds x y = k) (seen @ [c]) = []
      | Some r \<Rightarrow>
          tiles r = filter (\<lambda>(x, y). nearest_region seeds x y = k) (seen @ [c])
          \<and> area r = int (length (tiles r))
          \<and> biome_counts r = counter_of (map (\<lambda>(x, y). biome_map ! nat y ! nat x) (tiles r))
          \<and> dominant_biome r = None \<and> centroid r = seed r" for k
  proof (cases "k = ?n")
    case True
    have "area ?new = int (length (tiles ?new))"
      using data notin by (simp add: set_add_def)
    moreover have "biome_counts ?new
        = counter_of (map (\<lambda>(x, y). biome_map ! nat y ! nat x) (tiles ?new))"
      using data notin by (simp add: set_add_def counter_of_snoc)
    moreover have "dominant_biome ?new = None \<and> centroid ?new = seed ?new"
      using data by simp
    ultimately show ?thesis using True tiles_new by simp
  next
    case False
    then have eq: "filter (\<lambda>(x, y). nearest_region seeds x y = k) (seen @ [c])
        = filter (\<lambda>(x, y). nearest_region seeds x y = k) seen"
      using c by auto
    have old: "case rd k of
        None \<Rightarrow> filter (\<lambda>(x, y). nearest_region seeds x y = k) seen = []
      | Some r \<Rightarrow>
          tiles r = filter (\<lambda>(x, y). nearest_region seeds x y = k) seen
          \<and> area r = int (length (tiles r))
          \<and> biome_counts r = counter_of (map (\<lambda>(x, y). biome_map ! nat y ! nat x) (tiles r))
          \<and> dominant_biome r = None \<and> centroid r = seed r"
      using inv st by (simp add: data_inv_def)
    have "(rd(?n \<mapsto> ?new)) k = rd k" using False by simp
    then show ?thesis unfolding eq using old by (simp only:)
  qed
  then show ?thesis unfolding data_inv_def st1 by blast
qed
lemma assign_tiles_data:
  assumes "assign_tiles_to_regions width height seeds biome_map = Inr (region_map, region_data)"
  shows "\<exists>rd. data_inv seeds biome_map (grid_cells width height) rd
           \<and> region_data = (\<lambda>k. map_option finalize_region (rd k))"
proof -
  let ?init = "(replicate (nat height) (replicate (nat width) (-1)), init_region_data seeds)"
  obtain st where st: "foldM_r (assign_tile seeds biome_map) ?init (grid_cells width height) = Inr st"
    and rd: "region_data = (\<lambda>k. map_option finalize_region (snd st k))"
    using assms
    by (cases "foldM_r (assign_tile seeds biome_map) ?init (grid_cells width height)")
      (auto simp: assign_tiles_to_regions_def bind_r_def split: prod.splits)
  have "data_inv seeds biome_map ([] @ grid_cells width height) (snd st)"
  proof (rule foldM_r_inv [where I = "\<lambda>seen s. data_inv seeds biome_map seen (snd s)"
        and A = UNIV, OF st])
    show "data_inv seeds biome_map [] (snd ?init)" by (simp add: data_inv_init)
    show "distinct ([] @ grid_cells width height)" by (simp add: distinct_grid_cells)
    show "set (grid_cells width height) \<subseteq> UNIV" by simp
  qed (rule data_inv_step)
  then show ?thesis using rd by auto
qed

lemma finalize_region_fields:
  assumes "area r = int (length (tiles r))" "dominant_biome r = None" "centroid r = seed r"
  shows "tiles (finalize_region r) = tiles r \<and> area (finalize_region r) = area r
    \<and> biome_counts (finalize_region r) = biome_counts r
    \<and> seed (finalize_region r) = seed r
    \<and> dominant_biome (finalize_region r) = most_common1 (biome_counts r)
    \<and> centroid (finalize_region r)
        = (if tiles r = [] then seed r
           else (sum_list (map fst (tiles r)) div area r, sum_list (map snd (tiles r)) div area r))"
  using assms by (simp add: finalize_region_def Let_def most_common1_def)

text \<open>
  Claim C2, amended. The records that \<open>generate_regions\<close> returns are those of the
  assignment step, computed from the region grid before smoothing: the tiles of a
  record are exactly the cells whose id in that grid is the record's key (in row order),
  its area is their number, its biome counts tally the biomes of those cells, its
  dominant biome is the most common of the counts, and its centroid is the floored mean
  of those cells, or the seed when there are none. The grid returned beside them is the
  smoothed one.
\<close>

theorem region_data_from_assignment:
  assumes "generate_regions P g width height num_regions biome_map
             = Inr ((region_map, seeds, region_data), g')"
  shows "\<exists>assigned.
           assign_tiles_to_regions width height seeds biome_map = Inr (assigned, region_data)
         \<and> smooth_regions assigned 2 = Inr region_map
         \<and> (\<forall>k r. region_data k = Some r \<longrightarrow>
              tiles r = filter (\<lambda>(x, y). assigned ! nat y ! nat x = k) (grid_cells width height)
              \<and> area r = int (length (tiles r))
              \<and> biome_counts r
                  = counter_of (map (\<lambda>(x, y). biome_map ! nat y ! nat x) (tiles r))
              \<and> dominant_biome r = most_common1 (biome_counts r)
              \<and> centroid r
                  = (if tiles r = [] then seed r
                     else (sum_list (map fst (tiles r)) div area r,
                           sum_list (map snd (tiles r)) div area r)))"
proof -
  obtain s1 g1 where sp: "generate_seed_points P g width height num_regions biome_map = Inr (s1, g1)"
    using assms
    by (cases "generate_seed_points P g width height num_regions biome_map")
      (auto simp: generate_regions_def bind_r_def)
  obtain assigned rd1 where asg: "assign_tiles_to_regions width height s1 biome_map
      = Inr (assigned, rd1)"
    using assms sp
    by (cases "assign_tiles_to_regions width height s1 biome_map")
      (auto simp: generate_regions_def bind_r_def)
  obtain sm where sm: "smooth_regions assigned 2 = Inr sm"
    using assms sp asg
    by (cases "smooth_regions assigned 2") (auto simp: generate_regions_def bind_r_def)
  have eqs: "region_map = sm" "seeds = s1" "region_data = rd1" "g' = g1"
    using assms sp asg sm by (auto simp: generate_regions_def bind_r_def)
  obtain rd where rd: "data_inv seeds biome_map (grid_cells width height) rd"
      "region_data = (\<lambda>k. map_option finalize_region (rd k))"
    using assign_tiles_data [OF asg] eqs by auto
  have grid: "grid_inv seeds width height (grid_cells width height) assigned"
    using assign_tiles_grid [OF asg] eqs by simp
  have flt: "filter (\<lambda>(x, y). nearest_region seeds x y = k) (grid_cells width height)
      = filter (\<lambda>(x, y). assigned ! nat y ! nat x = k) (grid_cells width height)" for k
    by (rule filter_cong) (use grid in \<open>auto simp: grid_inv_def\<close>)
  have rec: "tiles r = filter (\<lambda>(x, y). assigned ! nat y ! nat x = k) (grid_cells width height)
              \<and> area r = int (length (tiles r))
              \<and> biome_counts r
                  = counter_of (map (\<lambda>(x, y). biome_map ! nat y ! nat x) (tiles r))
              \<and> dominant_biome r = most_common1 (biome_counts r)
              \<and> centroid r
                  = (if tiles r = [] then seed r
                     else (sum_list (map fst (tiles r)) div area r,
                           sum_list (map snd (tiles r)) div area r))"
    if r: "region_data k = Some r" for k r
  proof -
    obtain r0 where r0: "rd k = Some r0" "r = finalize_region r0"
      using r rd(2) by (cases "rd k") auto
    have inv: "tiles r0 = filter (\<lambda>(x, y). nearest_region seeds x y = k) (grid_cells width height)"
        "area r0 = int (length (tiles r0))"
        "biome_counts r0 = counter_of (map (\<lambda>(x, y). biome_map ! nat y ! nat x) (tiles r0))"
        "dominant_biome r0 = None" "centroid r0 = seed r0"
      using rd(1) r0(1) by (auto simp: data_inv_def dest: spec [of _ k])
    show ?thesis
      using finalize_region_fields [OF inv(2,4,5)] inv(1,2,3) r0(2) flt [of k] by simp
  qed
  show ?thesis using asg sm eqs rec by blast
qed

lemma floor_sqrt_3_4: "\<lfloor>sqrt (3 / 4)\<rfloor> = (0::int)"
proof -
  have "0 \<le> sqrt (3 / 4)" by simp
  moreover have "sqrt (3 / 4) < 1" by simp
  ultimately show ?thesis by (simp add: floor_eq_iff)
qed

lemma seed_loop_demo_3:
  "seed_loop list_prng 2 200 0 [] [(0, 0, 1), (1, 0, 1), (2, 0, 1)] 0 [0, 9 / 10]
     = ([(0, 0), (2, 0)], 2, [])"
  by code_simp

lemma generate_seed_points_demo_3:
  "generate_seed_points list_prng [0, 9 / 10] 3 1 2
       [[''grassland'', ''grassland'', ''grassland'']] = Inr ([(0, 0), (2, 0)], [])"
  by (simp add: generate_seed_points_def seed_points_run_def min_distance_of_def
      floor_sqrt_3_4 all_positions_def grid_cells_3_1 grid_get_def bind_r_def
      get_biome_weight_def biome_weights_def seed_loop_demo_3)

lemma smooth_demo: "smooth_regions [[0, 0, 1]] 2 = Inr [[0, 0, 0]]"
  by code_simp

lemma assign_demo_records:
  "(case assign_tiles_to_regions 3 1 [(0, 0), (2, 0)]
       [[''grassland'', ''grassland'', ''grassland'']] of
      Inl e \<Rightarrow> False
    | Inr (assigned, region_data) \<Rightarrow>
        assigned = [[0, 0, 1]]
        \<and> map_option tiles (region_data 0) = Some [(0, 0), (1, 0)]
        \<and> map_option area (region_data 0) = Some 2
        \<and> map_option tiles (region_data 1) = Some [(2, 0)]
        \<and> map_option area (region_data 1) = Some 1
        \<and> map_option centroid (region_data 1) = Some (2, 0))"
  by code_simp

lemma generate_regions_demo:
  "\<exists>region_data.
     generate_regions list_prng [0, 9 / 10] 3 1 2
       [[''grassland'', ''grassland'', ''grassland'']]
       = Inr (([[0, 0, 0]], [(0, 0), (2, 0)], region_data), [])
     \<and> assign_tiles_to_regions 3 1 [(0, 0), (2, 0)]
         [[''grassland'', ''grassland'', ''grassland'']] = Inr ([[0, 0, 1]], region_data)
     \<and> map_option tiles (region_data 0) = Some [(0, 0), (1, 0)]
     \<and> map_option area (region_data 0) = Some 2
     \<and> map_option tiles (region_data 1) = Some [(2, 0)]
     \<and> map_option area (region_data 1) = Some 1"
  using assign_demo_records
  by (auto simp: generate_regions_def generate_seed_points_demo_3 bind_r_def smooth_demo
      split: sum.splits prod.splits)

text \<open>
  Claim C2 (fails on the code). On a row of three grassland cells with the seeds
  \<open>(0, 0)\<close> and \<open>(2, 0)\<close> the assignment gives the ids 0, 0, 1 and smoothing turns the
  returned grid into 0, 0, 0; the records returned with it still give region 1 the tile
  \<open>(2, 0)\<close> and area 1, and region 0 two tiles, though the returned grid has no cell of
  id 1 and three of id 0.
\<close>

theorem region_data_stale_counterexample:
  "(case generate_regions list_prng [0, 9 / 10] 3 1 2
       [[''grassland'', ''grassland'', ''grassland'']] of
      Inl e \<Rightarrow> False
    | Inr ((region_map, seeds, region_data), g') \<Rightarrow>
        region_map = [[0, 0, 0]] \<and> seeds = [(0, 0), (2, 0)]
        \<and> map_option tiles (region_data 0) = Some [(0, 0), (1, 0)]
        \<and> map_option area (region_data 0) = Some 2
        \<and> map_option tiles (region_data 1) = Some [(2, 0)]
        \<and> map_option area (region_data 1) = Some 1)"
  using generate_regions_demo by auto

theorem region_data_from_assignment_witness:
  "\<exists>region_data.
     generate_regions list_prng [0, 9 / 10] 3 1 2
       [[''grassland'', ''grassland'', ''grassland'']]
       = Inr (([[0, 0, 0]], [(0, 0), (2, 0)], region_data), [])
     \<and> assign_tiles_to_regions 3 1 [(0, 0), (2, 0)]
         [[''grassland'', ''grassland'', ''grassland'']] = Inr ([[0, 0, 1]], region_data)
     \<and> smooth_regions [[0, 0, 1]] 2 = Inr [[0, 0, 0]]
     \<and> (\<exists>r. region_data 1 = Some r
          \<and> tiles r = filter (\<lambda>(x, y). [[0, 0, 1]] ! nat y ! nat x = (1::int)) (grid_cells 3 1)
          \<and> tiles r = [(2, 0)] \<and> area r = 1 \<and> centroid r = (2, 0))"
proof -
  obtain region_data where rd:
    "generate_regions list_prng [0, 9 / 10] 3 1 2
       [[''grassland'', ''grassland'', ''grassland'']]
       = Inr (([[0, 0, 0]], [(0, 0), (2, 0)], region_data), [])"
    "assign_tiles_to_regions 3 1 [(0, 0), (2, 0)]
         [[''grassland'', ''grassland'', ''grassland'']] = Inr ([[0, 0, 1]], region_data)"
    "map_option tiles (region_data 1) = Some [(2, 0)]"
    using generate_regions_demo by blast
  obtain r where r: "region_data 1 = Some r" "tiles r = [(2, 0)]"
    using rd(3) by (cases "region_data 1") auto
  obtain assigned where a:
    "assign_tiles_to_regions 3 1 [(0, 0), (2, 0)]
         [[''grassland'', ''grassland'', ''grassland'']] = Inr (assigned, region_data)"
    "\<forall>k r. region_data k = Some r \<longrightarrow>
       tiles r = filter (\<lambda>(x, y). assigned ! nat y ! nat x = k) (grid_cells 3 1)
       \<and> area r = int (length (tiles r))
       \<and> biome_counts r
           = counter_of (map (\<lambda>(x, y).
               [[''grassland'', ''grassland'', ''grassland'']] ! nat y ! nat x) (tiles r))
       \<and> dominant_biome r = most_common1 (biome_counts r)
       \<and> centroid r
           = (if tiles r = [] then seed r
              else (sum_list (map fst (tiles r)) div area r,
                    sum_list (map snd (tiles r)) div area r))"
    using region_data_from_assignment [OF rd(1)] by blast
  have asg: "assigned = [[0, 0, 1]]" using a(1) rd(2) by simp
  have "tiles r = filter (\<lambda>(x, y). [[0, 0, 1]] ! nat y ! nat x = (1::int)) (grid_cells 3 1)"
    "area r = 1" "centroid r = (2, 0)"
    using a(2) r asg by auto
  then show ?thesis using rd r smooth_demo by auto
qed

text \<open>Without a seed the constructor draws one from the global generator: the state of
  that generator is the only entropy a run can read.\<close>

lemma init_without_seed_reads_generator:
  assumes "next_randint32 P g = (s, g1)" "0 \<le> s" "s < 2 ^ 32"
  shows "BiomeGenerator_init P g width height None
    = Inr (\<lparr> bg_width = width, bg_height = height, bg_seed = s \<rparr>, seed_rng P s)"
  using assms by (simp add: BiomeGenerator_init_def np_random_seed_def bind_r_def)

text \<open>
  Claim C5. With the seed given, a run of the pipeline does not depend on the state the
  global generator was in before it: both constructors reseed the generator from the
  seed, the noise uses no random draw, and no other source of entropy is read. Two runs
  with the same seed, dimensions and region count return the same biome, terrain and
  region grids (and the same seeds and records), or fail alike.
\<close>

theorem pipeline_deterministic:
  "pipeline P g1 seed_value width height num_regions
     = pipeline P g2 seed_value width height num_regions"
  by (simp add: pipeline_def BiomeGenerator_init_def RegionGenerator_init_def)

end
